theory Spec2Isabelle
  imports Complex_Main
begin

section \<open>Semantic retrieval over a vector index (pinecone\_utils.py)\<close>

text \<open>
  The development embeds the module \<open>pinecone_utils.py\<close>: the connection to the vector
  index (\<open>inicializar_pinecone\<close>), document embedding and indexing (\<open>gerar_embedding\<close>,
  \<open>processar_e_indexar_documento\<close>), the semantic search (\<open>buscar_documentos\<close>) and the
  listing (\<open>listar_todos_documentos\<close>).

  Conventions of the embedding.
  \<^item> Python text is a \<open>string\<close>, one \<open>char\<close> per code point, so the model covers text
    whose code points lie below 256 (Latin-1, which holds every literal of the module).
  \<^item> Floats (embedding components, similarity scores, numeric metadata) are carried as
    \<open>real\<close>; the module never computes with them, it only copies them and tests them
    against zero.
  \<^item> An exception is a value of type \<open>exn\<close>; a function that may raise returns
    \<open>exn + 'a\<close> with \<open>Inl\<close> for the raised exception.
  \<^item> Every call to an external service (the embedding service, the vector index) is
    recorded as an \<open>event\<close> appended to a trace that the functions pass along; the answer
    of a service may depend on everything that happened before, so each service of the
    \<open>world\<close> receives the trace of the earlier calls.
  \<^item> The \<open>print\<close> statements of the module are not modelled.
\<close>

subsection \<open>Python strings\<close>

definition isspace :: "char \<Rightarrow> bool" where
  \<comment> \<open>\<open>str.isspace\<close> on the code points below 256\<close>
  "isspace c = (of_char c \<in> {9, 10, 11, 12, 13, 28, 29, 30, 31, 32, 133, 160 :: nat})"

definition strip :: "string \<Rightarrow> string" where
  \<comment> \<open>\<open>str.strip()\<close>: leading and trailing whitespace removed\<close>
  "strip s = rev (dropWhile isspace (rev (dropWhile isspace s)))"

definition lower_char :: "char \<Rightarrow> char" where
  \<comment> \<open>the upper-case letters below 256 are A-Z, U+00C0-U+00D6 and U+00D8-U+00DE\<close>
  "lower_char c =
     (let n = (of_char c :: nat)
      in if (65 \<le> n \<and> n \<le> 90) \<or> (192 \<le> n \<and> n \<le> 214) \<or> (216 \<le> n \<and> n \<le> 222)
         then char_of (n + 32) else c)"

definition lower :: "string \<Rightarrow> string" where
  "lower s = map lower_char s"

fun starts_with :: "string \<Rightarrow> string \<Rightarrow> bool" where
  "starts_with [] s = True"
| "starts_with (p # ps) [] = False"
| "starts_with (p # ps) (c # cs) = (p = c \<and> starts_with ps cs)"

fun contains :: "string \<Rightarrow> string \<Rightarrow> bool" where
  \<comment> \<open>\<open>contains sub s\<close> is Python's \<open>sub in s\<close>\<close>
  "contains sub [] = (sub = [])"
| "contains sub (c # cs) = (starts_with sub (c # cs) \<or> contains sub cs)"

fun digits :: "nat \<Rightarrow> string" where
  "digits n = (if n < 10 then [char_of (48 + n)]
               else digits (n div 10) @ [char_of (48 + n mod 10)])"

definition str_int :: "int \<Rightarrow> string" where
  \<comment> \<open>\<open>str\<close> of a Python int\<close>
  "str_int i = (if i < 0 then CHR ''-'' # digits (nat (- i)) else digits (nat i))"

subsection \<open>Exceptions\<close>

datatype exn =
    ValueError string
  | ConnectionError string
  | OtherError string
    \<comment> \<open>any other subclass of \<open>Exception\<close> (AttributeError, TypeError, KeyError,
        IndexError, an error of a client library), with its message\<close>

datatype exn_class = ValueErrorClass | ConnectionErrorClass | OtherClass

fun class_of :: "exn \<Rightarrow> exn_class" where
  "class_of (ValueError m) = ValueErrorClass"
| "class_of (ConnectionError m) = ConnectionErrorClass"
| "class_of (OtherError m) = OtherClass"

fun str_exn :: "exn \<Rightarrow> string" where
  \<comment> \<open>\<open>str(e)\<close>\<close>
  "str_exn (ValueError m) = m"
| "str_exn (ConnectionError m) = m"
| "str_exn (OtherError m) = m"

subsection \<open>Data of the vector index\<close>

type_synonym vector = "real list"

datatype mval =
    MStr string
  | MNum real
  | MBool bool
  | MStrs "string list"
    \<comment> \<open>the values a metadata field of the index can hold\<close>

fun truthy :: "mval \<Rightarrow> bool" where
  \<comment> \<open>Python truth value, as tested by \<open>not v\<close>\<close>
  "truthy (MStr s) = (s \<noteq> [])"
| "truthy (MNum x) = (x \<noteq> 0)"
| "truthy (MBool b) = b"
| "truthy (MStrs xs) = (xs \<noteq> [])"

type_synonym metadata = "(string \<times> mval) list"

definition dict_get :: "metadata \<Rightarrow> string \<Rightarrow> mval \<Rightarrow> mval" where
  \<comment> \<open>\<open>d.get(k, default)\<close>\<close>
  "dict_get d k dflt = (case map_of d k of None \<Rightarrow> dflt | Some v \<Rightarrow> v)"

datatype meta_attr =
    MetaAbsent      \<comment> \<open>the match has no attribute \<open>metadata\<close>\<close>
  | MetaNone        \<comment> \<open>the attribute is \<open>None\<close>\<close>
  | MetaDict metadata
  | MetaOther       \<comment> \<open>a truthy object that is no mapping: its \<open>.get\<close> raises AttributeError\<close>

record rmatch =
  m_id :: "string option"       \<comment> \<open>\<open>None\<close>: the match has no attribute \<open>id\<close>\<close>
  m_score :: "real option"      \<comment> \<open>\<open>None\<close>: the match has no attribute \<open>score\<close>\<close>
  m_metadata :: meta_attr

datatype matches_attr =
    MatchesAbsent             \<comment> \<open>the response has no attribute \<open>matches\<close>\<close>
  | MatchesNone               \<comment> \<open>the attribute is \<open>None\<close>\<close>
  | MatchesList "rmatch list"
  | MatchesOther              \<comment> \<open>a truthy object that cannot be iterated\<close>

datatype qresp =
    RespNone                  \<comment> \<open>a falsy response\<close>
  | Resp matches_attr

type_synonym stats = "int option"
  \<comment> \<open>the entry \<open>total_vector_count\<close> of the index statistics, \<open>None\<close> when it is absent\<close>

datatype index_handle = Index string string
  \<comment> \<open>index name and host\<close>

subsection \<open>Configuration, events and the outside world\<close>

record config =
  PINECONE_API_KEY :: "string option"
  PINECONE_HOST :: "string option"
  INDEX_NAME :: string
  GEMINI_EMBEDDING_MODEL :: string

datatype event =
    EmbedContent string "string list" string
      \<comment> \<open>\<open>genai.embed_content(model, content, task_type)\<close>\<close>
  | PineconeClient string
      \<comment> \<open>\<open>Pinecone(api_key)\<close>\<close>
  | PineconeIndex string string
      \<comment> \<open>\<open>pc.Index(name, host)\<close>\<close>
  | DescribeIndexStats
  | Query vector int bool
      \<comment> \<open>\<open>index.query(vector, top_k, include_metadata)\<close>\<close>
  | Upsert "(string \<times> vector \<times> metadata) list"

record world =
  cfg :: config
  embed_content :: "event list \<Rightarrow> string \<Rightarrow> string list \<Rightarrow> string \<Rightarrow> exn + vector list option"
    \<comment> \<open>the response's entry \<open>embedding\<close>; \<open>None\<close> when the response has no such entry\<close>
  pinecone_client :: "event list \<Rightarrow> string \<Rightarrow> exn + unit"
  pinecone_index :: "event list \<Rightarrow> string \<Rightarrow> string \<Rightarrow> exn + index_handle"
  describe_index_stats :: "event list \<Rightarrow> exn + stats"
  index_query :: "event list \<Rightarrow> vector \<Rightarrow> int \<Rightarrow> bool \<Rightarrow> exn + qresp"
  index_upsert :: "event list \<Rightarrow> (string \<times> vector \<times> metadata) list \<Rightarrow> exn + unit"
  now_ms :: "event list \<Rightarrow> int"
    \<comment> \<open>\<open>int(time.time() * 1000)\<close>\<close>

definition falsy_str :: "string option \<Rightarrow> bool" where
  \<comment> \<open>\<open>not v\<close> for an environment variable: unset or empty\<close>
  "falsy_str v = (case v of None \<Rightarrow> True | Some s \<Rightarrow> s = [])"

subsection \<open>inicializar\_pinecone\<close>

definition inicializar_pinecone :: "world \<Rightarrow> event list \<Rightarrow> (exn + index_handle) \<times> event list" where
  \<comment> \<open>the two configuration checks raise outside the \<open>try\<close>; whatever the client raises
      inside it is raised again unchanged\<close>
  "inicializar_pinecone w tr =
     (case PINECONE_API_KEY (cfg w) of
        None \<Rightarrow> (Inl (ValueError (''PINECONE_API_KEY n'' @ [CHR 0xE3] @ ''o encontrada no arquivo .env'')), tr)
      | Some key \<Rightarrow>
          if key = [] then
            (Inl (ValueError (''PINECONE_API_KEY n'' @ [CHR 0xE3] @ ''o encontrada no arquivo .env'')), tr)
          else
            (case PINECONE_HOST (cfg w) of
               None \<Rightarrow> (Inl (ValueError (''PINECONE_HOST n'' @ [CHR 0xE3] @ ''o encontrado no arquivo .env'')), tr)
             | Some host \<Rightarrow>
                 if host = [] then
                   (Inl (ValueError (''PINECONE_HOST n'' @ [CHR 0xE3] @ ''o encontrado no arquivo .env'')), tr)
                 else
                   (case pinecone_client w tr key of
                      Inl e \<Rightarrow> (Inl e, tr @ [PineconeClient key])
                    | Inr u \<Rightarrow>
                        (case pinecone_index w (tr @ [PineconeClient key]) (INDEX_NAME (cfg w)) host of
                           Inl e \<Rightarrow>
                             (Inl e, tr @ [PineconeClient key, PineconeIndex (INDEX_NAME (cfg w)) host])
                         | Inr ix \<Rightarrow>
                             (case describe_index_stats w
                                     (tr @ [PineconeClient key, PineconeIndex (INDEX_NAME (cfg w)) host]) of
                                Inl e \<Rightarrow>
                                  (Inl e, tr @ [PineconeClient key, PineconeIndex (INDEX_NAME (cfg w)) host,
                                                DescribeIndexStats])
                              | Inr st \<Rightarrow>
                                  (Inr ix, tr @ [PineconeClient key, PineconeIndex (INDEX_NAME (cfg w)) host,
                                                 DescribeIndexStats]))))))"

subsection \<open>gerar\_embedding and processar\_e\_indexar\_documento\<close>

definition first_embedding :: "vector list option \<Rightarrow> exn + vector" where
  \<comment> \<open>\<open>response['embedding'][0]\<close>: KeyError without the entry, IndexError on an empty list\<close>
  "first_embedding r =
     (case r of
        None \<Rightarrow> Inl (OtherError ([CHR 0x27] @ ''embedding'' @ [CHR 0x27]))
      | Some [] \<Rightarrow> Inl (OtherError ''list index out of range'')
      | Some (v # vs) \<Rightarrow> Inr v)"

definition gerar_embedding :: "world \<Rightarrow> event list \<Rightarrow> string \<Rightarrow> (exn + vector) \<times> event list" where
  "gerar_embedding w tr texto =
     (case embed_content w tr (GEMINI_EMBEDDING_MODEL (cfg w)) [texto] ''RETRIEVAL_DOCUMENT'' of
        Inl e \<Rightarrow>
          (Inl e, tr @ [EmbedContent (GEMINI_EMBEDDING_MODEL (cfg w)) [texto] ''RETRIEVAL_DOCUMENT''])
      | Inr r \<Rightarrow>
          (first_embedding r,
           tr @ [EmbedContent (GEMINI_EMBEDDING_MODEL (cfg w)) [texto] ''RETRIEVAL_DOCUMENT'']))"

definition processar_e_indexar_documento ::
  "world \<Rightarrow> event list \<Rightarrow> string \<Rightarrow> metadata \<Rightarrow> string option \<Rightarrow> index_handle option
     \<Rightarrow> (exn + string) \<times> event list" where
  "processar_e_indexar_documento w tr texto md ident index =
     (case gerar_embedding w tr texto of
        (Inl e, tr1) \<Rightarrow> (Inl e, tr1)
      | (Inr embedding, tr1) \<Rightarrow>
          (let ident' = (case ident of None \<Rightarrow> str_int (now_ms w tr1) | Some i \<Rightarrow> i)
           in case (case index of None \<Rightarrow> inicializar_pinecone w tr1 | Some ix \<Rightarrow> (Inr ix, tr1)) of
                (Inl e, tr2) \<Rightarrow> (Inl e, tr2)
              | (Inr ix, tr2) \<Rightarrow>
                  (case index_upsert w tr2 [(ident', embedding, md)] of
                     Inl e \<Rightarrow> (Inl e, tr2 @ [Upsert [(ident', embedding, md)]])
                   | Inr u \<Rightarrow> (Inr ident', tr2 @ [Upsert [(ident', embedding, md)]]))))"

subsection \<open>buscar\_documentos\<close>

record doc =
  doc_id :: string
  doc_score :: real
  doc_arquivo :: mval
  doc_texto :: mval
  doc_secao :: mval
  doc_valores_monetarios :: mval
  doc_cpfs :: mval
  doc_nomes :: mval

definition termos_valor :: "string list" where
  "termos_valor =
     [''valor'', ''pre'' @ [CHR 0xE7] @ ''o'', ''custo'', ''aluguel'', ''taxa'', ''multa'',
      ''reais'', ''r$'', ''pagamento'']"

definition nomes_pessoa :: "string list" where
  "nomes_pessoa = [''eduardo'', ''rocha'', ''fontenele'', ''gabriela'', ''bruno'', ''ana'']"

definition consulta_sobre_valor :: "string \<Rightarrow> bool" where
  "consulta_sobre_valor q = list_ex (\<lambda>termo. contains termo (lower q)) termos_valor"

definition consulta_sobre_pessoa :: "string \<Rightarrow> bool" where
  "consulta_sobre_pessoa q = list_ex (\<lambda>nome. contains nome (lower q)) nomes_pessoa"

definition sufixo_valor :: string where
  "sufixo_valor = '' valor aluguel pre'' @ [CHR 0xE7] @ ''o pagamento R$''"

definition sufixo_pessoa :: string where
  "sufixo_pessoa =
     '' nome cpf rg identifica'' @ [CHR 0xE7, CHR 0xE3] @ ''o contratante locat'' @ [CHR 0xE1]
       @ ''rio inquilino''"

definition truncar :: "string \<Rightarrow> string" where
  \<comment> \<open>lines 126-127\<close>
  "truncar q = (if length q > 1000 then take 1000 q else q)"

definition enriquecer :: "string \<Rightarrow> string" where
  \<comment> \<open>lines 131-140\<close>
  "enriquecer q =
     (if consulta_sobre_valor q then q @ sufixo_valor
      else if consulta_sobre_pessoa q then q @ sufixo_pessoa
      else q)"

definition embed_consulta :: "world \<Rightarrow> event list \<Rightarrow> string \<Rightarrow> (exn + vector) \<times> event list" where
  \<comment> \<open>lines 143-152: every exception of the call or of the indexing becomes a ValueError\<close>
  "embed_consulta w tr q =
     (case (case embed_content w tr (GEMINI_EMBEDDING_MODEL (cfg w)) [q] ''RETRIEVAL_QUERY'' of
              Inl e \<Rightarrow> Inl e
            | Inr r \<Rightarrow> first_embedding r) of
        Inl e \<Rightarrow>
          (Inl (ValueError (''N'' @ [CHR 0xE3] @ ''o foi poss'' @ [CHR 0xED]
                              @ ''vel gerar embedding para a consulta: '' @ str_exn e)),
           tr @ [EmbedContent (GEMINI_EMBEDDING_MODEL (cfg w)) [q] ''RETRIEVAL_QUERY''])
      | Inr v \<Rightarrow>
          (Inr v, tr @ [EmbedContent (GEMINI_EMBEDDING_MODEL (cfg w)) [q] ''RETRIEVAL_QUERY'']))"

definition conectar :: "world \<Rightarrow> event list \<Rightarrow> (exn + index_handle) \<times> event list" where
  \<comment> \<open>lines 155-161: every exception of the connection becomes a ConnectionError; the
      handle that \<open>inicializar_pinecone\<close> returns is an object, hence truthy, so the
      test \<open>not index\<close> never fires\<close>
  "conectar w tr =
     (case inicializar_pinecone w tr of
        (Inl e, tr1) \<Rightarrow>
          (Inl (ConnectionError (''Falha na conex'' @ [CHR 0xE3] @ ''o com o Pinecone: '' @ str_exn e)), tr1)
      | (Inr ix, tr1) \<Rightarrow> (Inr ix, tr1))"

definition realizar_busca ::
  "world \<Rightarrow> event list \<Rightarrow> vector \<Rightarrow> int \<Rightarrow> (exn + matches_attr option) \<times> event list" where
  \<comment> \<open>lines 164-178; \<open>Inr None\<close> is the early \<open>return []\<close>, \<open>Inr (Some ms)\<close> a truthy
      \<open>resultados.matches\<close>\<close>
  "realizar_busca w tr v top_k =
     (case index_query w tr v top_k True of
        Inl e \<Rightarrow> (Inl (ValueError (''Falha na busca vetorial: '' @ str_exn e)), tr @ [Query v top_k True])
      | Inr RespNone \<Rightarrow> (Inr None, tr @ [Query v top_k True])
      | Inr (Resp MatchesAbsent) \<Rightarrow> (Inr None, tr @ [Query v top_k True])
      | Inr (Resp MatchesNone) \<Rightarrow> (Inr None, tr @ [Query v top_k True])
      | Inr (Resp (MatchesList ms)) \<Rightarrow>
          (if ms = [] then (Inr None, tr @ [Query v top_k True])
           else (Inr (Some (MatchesList ms)), tr @ [Query v top_k True]))
      | Inr (Resp MatchesOther) \<Rightarrow> (Inr (Some MatchesOther), tr @ [Query v top_k True]))"

definition campo_extra :: "metadata \<Rightarrow> string \<Rightarrow> mval" where
  \<comment> \<open>lines 199-209: the field when present and truthy, the empty list otherwise\<close>
  "campo_extra md campo =
     (case map_of md campo of
        None \<Rightarrow> MStrs []
      | Some v \<Rightarrow> if truthy v then v else MStrs [])"

definition processar_match :: "rmatch \<Rightarrow> exn + doc option" where
  \<comment> \<open>the body of the \<open>try\<close> of lines 183-216; \<open>Inr None\<close> is a \<open>continue\<close>,
      \<open>Inr (Some d)\<close> the \<open>append\<close>\<close>
  "processar_match m =
     (case m_metadata m of
        MetaAbsent \<Rightarrow> Inr None
      | MetaNone \<Rightarrow> Inr None
      | MetaOther \<Rightarrow> Inl (OtherError ''object has no attribute get'')
      | MetaDict md \<Rightarrow>
          if md = [] then Inr None
          else
            (let d = \<lparr> doc_id = (case m_id m of None \<Rightarrow> [] | Some i \<Rightarrow> i),
                       doc_score = (case m_score m of None \<Rightarrow> 0 | Some s \<Rightarrow> s),
                       doc_arquivo = dict_get md ''arquivo'' (MStr []),
                       doc_texto = dict_get md ''texto'' (MStr []),
                       doc_secao = dict_get md ''secao'' (MStr []),
                       doc_valores_monetarios = campo_extra md ''valores_monetarios'',
                       doc_cpfs = campo_extra md ''cpfs'',
                       doc_nomes = campo_extra md ''nomes'' \<rparr>
             in if \<not> truthy (doc_arquivo d) \<or> \<not> truthy (doc_texto d) then Inr None
                else Inr (Some d)))"

fun formatar_resultados :: "rmatch list \<Rightarrow> doc list" where
  \<comment> \<open>the loop of lines 181-219: a match whose processing raises is skipped\<close>
  "formatar_resultados [] = []"
| "formatar_resultados (m # ms) =
     (case processar_match m of
        Inl e \<Rightarrow> formatar_resultados ms
      | Inr None \<Rightarrow> formatar_resultados ms
      | Inr (Some d) \<Rightarrow> d # formatar_resultados ms)"

definition corpo_busca :: "world \<Rightarrow> event list \<Rightarrow> string \<Rightarrow> int \<Rightarrow> (exn + doc list) \<times> event list" where
  \<comment> \<open>the body of the outer \<open>try\<close>, lines 124-222\<close>
  "corpo_busca w tr query top_k =
     (case embed_consulta w tr (enriquecer (truncar (strip query))) of
        (Inl e, tr1) \<Rightarrow> (Inl e, tr1)
      | (Inr query_embedding, tr1) \<Rightarrow>
          (case conectar w tr1 of
             (Inl e, tr2) \<Rightarrow> (Inl e, tr2)
           | (Inr ix, tr2) \<Rightarrow>
               (case realizar_busca w tr2 query_embedding top_k of
                  (Inl e, tr3) \<Rightarrow> (Inl e, tr3)
                | (Inr None, tr3) \<Rightarrow> (Inr [], tr3)
                | (Inr (Some (MatchesList ms)), tr3) \<Rightarrow> (Inr (formatar_resultados ms), tr3)
                | (Inr (Some other), tr3) \<Rightarrow> (Inl (OtherError ''object is not iterable''), tr3))))"

definition tratar_excecao :: "(exn + doc list) \<times> event list \<Rightarrow> (exn + doc list) \<times> event list" where
  \<comment> \<open>the handlers of lines 224-232\<close>
  "tratar_excecao r =
     (case r of
        (Inl (ValueError m), tr) \<Rightarrow> (Inl (ValueError m), tr)
      | (Inl (ConnectionError m), tr) \<Rightarrow> (Inl (ConnectionError m), tr)
      | (Inl (OtherError m), tr) \<Rightarrow> (Inr [], tr)
      | (Inr ds, tr) \<Rightarrow> (Inr ds, tr))"

definition buscar_documentos :: "world \<Rightarrow> event list \<Rightarrow> string \<Rightarrow> int \<Rightarrow> (exn + doc list) \<times> event list" where
  "buscar_documentos w tr query top_k =
     (if query = [] \<or> strip query = [] then (Inr [], tr)
      else tratar_excecao (corpo_busca w tr query top_k))"

subsection \<open>listar\_todos\_documentos\<close>

record listed =
  l_id :: string
  l_arquivo :: mval
  l_texto :: mval

definition listar_match :: "rmatch \<Rightarrow> exn + listed" where
  \<comment> \<open>lines 270-274: \<open>match.id\<close> and \<open>match.metadata.get\<close> raise AttributeError on a
      match without the attribute or with a metadata that is no mapping\<close>
  "listar_match m =
     (case m_id m of
        None \<Rightarrow> Inl (OtherError ''object has no attribute id'')
      | Some i \<Rightarrow>
          (case m_metadata m of
             MetaDict md \<Rightarrow>
               Inr \<lparr> l_id = i, l_arquivo = dict_get md ''arquivo'' (MStr []),
                     l_texto = dict_get md ''texto'' (MStr []) \<rparr>
           | other \<Rightarrow> Inl (OtherError ''object has no attribute get'')))"

fun listar_matches :: "rmatch list \<Rightarrow> exn + listed list" where
  \<comment> \<open>the loop of lines 268-274: the first exception leaves the loop\<close>
  "listar_matches [] = Inr []"
| "listar_matches (m # ms) =
     (case listar_match m of
        Inl e \<Rightarrow> Inl e
      | Inr d \<Rightarrow> (case listar_matches ms of Inl e \<Rightarrow> Inl e | Inr ds \<Rightarrow> Inr (d # ds)))"

definition dummy_vector :: vector where
  \<comment> \<open>line 259: \<open>[0.0] * 768\<close>\<close>
  "dummy_vector = replicate 768 0"

definition consulta_generica ::
  "world \<Rightarrow> event list \<Rightarrow> int \<Rightarrow> int \<Rightarrow> (exn + listed list \<times> int) \<times> event list" where
  \<comment> \<open>the body of the inner \<open>try\<close>, lines 257-276\<close>
  "consulta_generica w tr total_count limit =
     (case index_query w tr dummy_vector (min limit 10000) True of
        Inl e \<Rightarrow> (Inl e, tr @ [Query dummy_vector (min limit 10000) True])
      | Inr RespNone \<Rightarrow>
          (Inl (OtherError ''object has no attribute matches''),
           tr @ [Query dummy_vector (min limit 10000) True])
      | Inr (Resp (MatchesList ms)) \<Rightarrow>
          (case listar_matches ms of
             Inl e \<Rightarrow> (Inl e, tr @ [Query dummy_vector (min limit 10000) True])
           | Inr ds \<Rightarrow> (Inr (ds, total_count), tr @ [Query dummy_vector (min limit 10000) True]))
      | Inr (Resp MatchesAbsent) \<Rightarrow>
          (Inl (OtherError ''object has no attribute matches''),
           tr @ [Query dummy_vector (min limit 10000) True])
      | Inr (Resp outro) \<Rightarrow>
          (Inl (OtherError ''object is not iterable''),
           tr @ [Query dummy_vector (min limit 10000) True]))"

definition corpo_listagem ::
  "world \<Rightarrow> event list \<Rightarrow> int \<Rightarrow> (exn + listed list \<times> int) \<times> event list" where
  \<comment> \<open>the body of the outer \<open>try\<close>, lines 245-280, with the inner handler\<close>
  "corpo_listagem w tr limit =
     (case inicializar_pinecone w tr of
        (Inl e, tr1) \<Rightarrow> (Inl e, tr1)
      | (Inr ix, tr1) \<Rightarrow>
          (case describe_index_stats w tr1 of
             Inl e \<Rightarrow> (Inl e, tr1 @ [DescribeIndexStats])
           | Inr st \<Rightarrow>
               (let total_count = (case st of None \<Rightarrow> 0 | Some n \<Rightarrow> n)
                in if total_count = 0 then (Inr ([], 0), tr1 @ [DescribeIndexStats])
                   else
                     (case consulta_generica w (tr1 @ [DescribeIndexStats]) total_count limit of
                        (Inl e, tr2) \<Rightarrow> (Inr ([], total_count), tr2)
                      | (Inr r, tr2) \<Rightarrow> (Inr r, tr2)))))"

definition listar_todos_documentos ::
  "world \<Rightarrow> event list \<Rightarrow> int \<Rightarrow> (exn + listed list \<times> int) \<times> event list" where
  \<comment> \<open>the outer handler, lines 281-283\<close>
  "listar_todos_documentos w tr limit =
     (case corpo_listagem w tr limit of
        (Inl e, tr1) \<Rightarrow> (Inr ([], 0), tr1)
      | (Inr r, tr1) \<Rightarrow> (Inr r, tr1))"

subsection \<open>Reading a trace\<close>

fun embed_calls :: "event list \<Rightarrow> (string list \<times> string) list" where
  \<comment> \<open>the content and the task type of every embedding call, in order\<close>
  "embed_calls [] = []"
| "embed_calls (EmbedContent model content task # es) = (content, task) # embed_calls es"
| "embed_calls (e # es) = embed_calls es"

fun query_calls :: "event list \<Rightarrow> (vector \<times> int \<times> bool) list" where
  \<comment> \<open>the arguments of every query of the index, in order\<close>
  "query_calls [] = []"
| "query_calls (Query v k b # es) = (v, k, b) # query_calls es"
| "query_calls (e # es) = query_calls es"

subsection \<open>Properties of matches used in the statements\<close>

definition sem_metadata :: "rmatch \<Rightarrow> bool" where
  \<comment> \<open>the match lacks a non-empty metadata object: the test of line 185\<close>
  "sem_metadata m =
     (case m_metadata m of
        MetaAbsent \<Rightarrow> True
      | MetaNone \<Rightarrow> True
      | MetaDict md \<Rightarrow> md = []
      | MetaOther \<Rightarrow> False)"

definition completo :: "rmatch \<Rightarrow> bool" where
  \<comment> \<open>the match has a metadata mapping with a truthy file name and a truthy text\<close>
  "completo m =
     (case m_metadata m of
        MetaDict md \<Rightarrow>
          truthy (dict_get md ''arquivo'' (MStr [])) \<and> truthy (dict_get md ''texto'' (MStr []))
      | outro \<Rightarrow> False)"

subsection \<open>Concrete worlds and matches\<close>

definition config_exemplo :: config where
  "config_exemplo =
     \<lparr> PINECONE_API_KEY = Some ''chave'', PINECONE_HOST = Some ''host'',
       INDEX_NAME = ''brito-ai'', GEMINI_EMBEDDING_MODEL = ''models/embedding-001'' \<rparr>"

definition mundo :: "(exn + vector list option) \<Rightarrow> (exn + stats) \<Rightarrow> (exn + qresp) \<Rightarrow> world" where
  \<comment> \<open>a world whose services answer the same at every call: the embedding service with
      \<open>emb\<close>, the statistics with \<open>st\<close>, the query with \<open>qr\<close>\<close>
  "mundo emb st qr =
     \<lparr> cfg = config_exemplo,
       embed_content = (\<lambda>tr model content task. emb),
       pinecone_client = (\<lambda>tr key. Inr ()),
       pinecone_index = (\<lambda>tr name host. Inr (Index name host)),
       describe_index_stats = (\<lambda>tr. st),
       index_query = (\<lambda>tr v k b. qr),
       index_upsert = (\<lambda>tr vs. Inr ()),
       now_ms = (\<lambda>tr. 1700000000000) \<rparr>"

definition mundo_sem_chave :: world where
  \<comment> \<open>a world without the API key of the index\<close>
  "mundo_sem_chave =
     (mundo (Inr (Some [[1]])) (Inr (Some 3)) (Inr (Resp (MatchesList []))))
       \<lparr> cfg := config_exemplo \<lparr> PINECONE_API_KEY := None \<rparr> \<rparr>"

definition match_completo :: rmatch where
  "match_completo =
     \<lparr> m_id = Some ''v1'', m_score = Some 1,
       m_metadata = MetaDict [(''arquivo'', MStr ''a.pdf''), (''texto'', MStr ''clausula'')] \<rparr>"

definition match_completo2 :: rmatch where
  "match_completo2 =
     \<lparr> m_id = Some ''v4'', m_score = None,
       m_metadata = MetaDict [(''texto'', MStr ''aluguel''), (''arquivo'', MStr ''c.pdf''),
                              (''cpfs'', MStrs [''111'']), (''nomes'', MStrs [])] \<rparr>"

definition match_sem_texto :: rmatch where
  "match_sem_texto =
     \<lparr> m_id = Some ''v2'', m_score = Some 1,
       m_metadata = MetaDict [(''arquivo'', MStr ''b.pdf'')] \<rparr>"

definition match_sem_metadata :: rmatch where
  "match_sem_metadata = \<lparr> m_id = Some ''v3'', m_score = Some 1, m_metadata = MetaNone \<rparr>"

definition match_estranho :: rmatch where
  \<comment> \<open>a match whose metadata is no mapping: processing it raises\<close>
  "match_estranho = \<lparr> m_id = Some ''v5'', m_score = Some 1, m_metadata = MetaOther \<rparr>"

definition mundo_tres :: world where
  \<comment> \<open>every service answers; the query returns three matches, one of them without
      metadata\<close>
  "mundo_tres =
     mundo (Inr (Some [[1]])) (Inr (Some 3))
       (Inr (Resp (MatchesList [match_completo, match_sem_metadata, match_completo2])))"

definition mundo_incompleto :: world where
  \<comment> \<open>the query returns a complete match and one without text\<close>
  "mundo_incompleto =
     mundo (Inr (Some [[1]])) (Inr (Some 2))
       (Inr (Resp (MatchesList [match_completo, match_sem_texto])))"

definition mundo_vazio :: world where
  \<comment> \<open>the index reports no vector\<close>
  "mundo_vazio = mundo (Inr (Some [[1]])) (Inr (Some 0)) (Inr (Resp (MatchesList [])))"

definition mundo_busca_falha :: world where
  \<comment> \<open>the query of the index raises\<close>
  "mundo_busca_falha = mundo (Inr (Some [[1]])) (Inr (Some 3)) (Inl (OtherError ''timeout''))"

definition mundo_embed_falha :: world where
  \<comment> \<open>the embedding service raises\<close>
  "mundo_embed_falha =
     mundo (Inl (OtherError ''timeout'')) (Inr (Some 3)) (Inr (Resp (MatchesList [match_completo])))"

definition mundo_nao_iteravel :: world where
  \<comment> \<open>the response of the query carries matches that cannot be iterated\<close>
  "mundo_nao_iteravel = mundo (Inr (Some [[1]])) (Inr (Some 3)) (Inr (Resp MatchesOther))"

definition consulta_longa :: string where
  \<comment> \<open>a monetary term behind the first 1000 characters\<close>
  "consulta_longa = replicate 1000 (CHR ''a'') @ ''valor''"

definition consulta_longa_valor :: string where
  \<comment> \<open>a monetary term within the first 1000 characters of 1005\<close>
  "consulta_longa_valor = ''valor'' @ replicate 1000 (CHR ''a'')"

section \<open>Auxiliary facts\<close>

lemma strip_Nil_iff: "strip s = [] \<longleftrightarrow> (\<forall>c\<in>set s. isspace c)"
proof -
  have "(\<forall>x\<in>set (dropWhile isspace s). isspace x) \<longleftrightarrow> dropWhile isspace s = []"
  proof
    assume a: "\<forall>x\<in>set (dropWhile isspace s). isspace x"
    show "dropWhile isspace s = []"
    proof (rule ccontr)
      assume n: "dropWhile isspace s \<noteq> []"
      then have "\<not> isspace (hd (dropWhile isspace s))" by (rule hd_dropWhile)
      moreover have "hd (dropWhile isspace s) \<in> set (dropWhile isspace s)" using n by (rule hd_in_set)
      ultimately show False using a by blast
    qed
  next
    assume e: "dropWhile isspace s = []"
    show "\<forall>x\<in>set (dropWhile isspace s). isspace x" unfolding e by simp
  qed
  then show ?thesis
    by (simp add: strip_def dropWhile_eq_Nil_conv)
qed

lemma starts_with_set: "starts_with p s \<Longrightarrow> set p \<subseteq> set s"
  by (induction p s rule: starts_with.induct) auto

lemma contains_set: "contains sub s \<Longrightarrow> set sub \<subseteq> set s"
proof (induction s)
  case Nil
  then show ?case by simp
next
  case (Cons c cs)
  then show ?case using starts_with_set [of sub "c # cs"] by auto
qed

lemma formatar_resultados_append:
  "formatar_resultados (xs @ ys) = formatar_resultados xs @ formatar_resultados ys"
  by (induction xs) (auto split: sum.splits option.splits)

lemma processar_match_completo:
  "processar_match m = Inr (Some d) \<Longrightarrow> truthy (doc_arquivo d) \<and> truthy (doc_texto d)"
  by (auto simp: processar_match_def Let_def split: meta_attr.splits if_splits)

lemma formatar_resultados_completos:
  "d \<in> set (formatar_resultados ms) \<Longrightarrow> truthy (doc_arquivo d) \<and> truthy (doc_texto d)"
  by (induction ms) (auto split: sum.splits option.splits dest: processar_match_completo)

lemma embed_calls_append: "embed_calls (xs @ ys) = embed_calls xs @ embed_calls ys"
  by (induction xs rule: embed_calls.induct) auto

lemma query_calls_append: "query_calls (xs @ ys) = query_calls xs @ query_calls ys"
  by (induction xs rule: query_calls.induct) auto

lemma snd_embed_consulta:
  "snd (embed_consulta w tr q) =
     tr @ [EmbedContent (GEMINI_EMBEDDING_MODEL (cfg w)) [q] ''RETRIEVAL_QUERY'']"
  by (simp add: embed_consulta_def split: sum.splits)

lemma snd_gerar_embedding:
  "snd (gerar_embedding w tr t) =
     tr @ [EmbedContent (GEMINI_EMBEDDING_MODEL (cfg w)) [t] ''RETRIEVAL_DOCUMENT'']"
  by (simp add: gerar_embedding_def split: sum.splits)

lemma inicializar_pinecone_trace:
  "\<exists>evs. snd (inicializar_pinecone w tr) = tr @ evs \<and> embed_calls evs = [] \<and> query_calls evs = []"
  by (auto simp: inicializar_pinecone_def split: option.splits sum.splits)

lemma conectar_trace:
  "\<exists>evs. snd (conectar w tr) = tr @ evs \<and> embed_calls evs = [] \<and> query_calls evs = []"
  using inicializar_pinecone_trace [of w tr]
  by (auto simp: conectar_def split: prod.splits sum.splits)

lemma snd_realizar_busca:
  "snd (realizar_busca w tr v k) = tr @ [Query v k True]"
  by (simp add: realizar_busca_def split: sum.splits qresp.splits matches_attr.splits)

lemma corpo_busca_embed_calls:
  "\<exists>evs. snd (corpo_busca w tr q k) =
           tr @ EmbedContent (GEMINI_EMBEDDING_MODEL (cfg w)) [enriquecer (truncar (strip q))]
                  ''RETRIEVAL_QUERY'' # evs
         \<and> embed_calls evs = []"
proof -
  let ?e = "EmbedContent (GEMINI_EMBEDDING_MODEL (cfg w)) [enriquecer (truncar (strip q))] ''RETRIEVAL_QUERY''"
  obtain r1 tr1 where e1: "embed_consulta w tr (enriquecer (truncar (strip q))) = (r1, tr1)"
    by (cases "embed_consulta w tr (enriquecer (truncar (strip q)))")
  have t1: "tr1 = tr @ [?e]"
    using snd_embed_consulta [of w tr "enriquecer (truncar (strip q))"] e1 by simp
  obtain r2 tr2 where e2: "conectar w tr1 = (r2, tr2)" by (cases "conectar w tr1")
  obtain evs2 where t2: "tr2 = tr1 @ evs2" "embed_calls evs2 = []"
    using conectar_trace [of w tr1] e2 by auto
  show ?thesis
  proof (cases r1)
    case (Inl e)
    then show ?thesis using e1 t1 by (simp add: corpo_busca_def)
  next
    case (Inr v)
    show ?thesis
    proof (cases r2)
      case (Inl e)
      then show ?thesis using e1 e2 t1 t2 Inr by (simp add: corpo_busca_def)
    next
      case ix: (Inr ix)
      obtain r3 tr3 where e3: "realizar_busca w tr2 v k = (r3, tr3)"
        by (cases "realizar_busca w tr2 v k")
      have t3: "tr3 = tr2 @ [Query v k True]"
        using snd_realizar_busca [of w tr2 v k] e3 by simp
      have "snd (corpo_busca w tr q k) = tr3"
        using e1 e2 e3 Inr ix
        by (simp add: corpo_busca_def split: sum.splits option.splits matches_attr.splits)
      then show ?thesis using t1 t2 t3 by (simp add: embed_calls_append)
    qed
  qed
qed

lemma snd_tratar_excecao: "snd (tratar_excecao r) = snd r"
  by (simp add: tratar_excecao_def split: prod.splits sum.splits exn.splits)

lemma consulta_sobre_valor_Nil: "\<not> consulta_sobre_valor []"
  by (simp add: consulta_sobre_valor_def termos_valor_def lower_def)

lemma buscar_documentos_embed_calls:
  assumes "q \<noteq> []" "strip q \<noteq> []"
  shows "embed_calls (drop (length tr) (snd (buscar_documentos w tr q k))) =
           [([enriquecer (truncar (strip q))], ''RETRIEVAL_QUERY'')]"
  using assms corpo_busca_embed_calls [of w tr q k]
  by (auto simp: buscar_documentos_def snd_tratar_excecao)

lemma strip_id:
  assumes "s \<noteq> []" "\<not> isspace (hd s)" "\<not> isspace (last s)"
  shows "strip s = s"
proof -
  have a: "dropWhile isspace s = s" using assms by (cases s) auto
  have "rev s \<noteq> []" "\<not> isspace (hd (rev s))" using assms by (auto simp: hd_rev)
  then have b: "dropWhile isspace (rev s) = rev s" by (cases "rev s") auto
  show ?thesis by (simp add: strip_def a b)
qed

lemma lower_replicate_a: "lower (replicate n (CHR ''a'')) = replicate n (CHR ''a'')"
  by (simp add: lower_def lower_char_def)

lemma strip_consulta_longa: "strip consulta_longa = consulta_longa"
  by (rule strip_id) (simp_all add: consulta_longa_def isspace_def)

lemma strip_consulta_longa_valor: "strip consulta_longa_valor = consulta_longa_valor"
  by (rule strip_id) (simp_all add: consulta_longa_valor_def isspace_def)

lemma take_consulta_longa: "take 1000 consulta_longa = replicate 1000 (CHR ''a'')"
  by (simp add: consulta_longa_def)

lemma not_contains_replicate:
  assumes "c \<in> set sub" "c \<noteq> a"
  shows "\<not> contains sub (replicate n a)"
proof
  assume "contains sub (replicate n a)"
  then have "set sub \<subseteq> set (replicate n a)" by (rule contains_set)
  then have "c \<in> set (replicate n a)" using assms(1) by blast
  then have "c = a" by (simp add: in_set_replicate)
  then show False using assms(2) by simp
qed

lemma not_valor_replicate_a: "\<not> consulta_sobre_valor (replicate n (CHR ''a''))"
  unfolding consulta_sobre_valor_def termos_valor_def lower_replicate_a list_ex_Nil_iff list_ex_Cons_iff
  using not_contains_replicate [of "CHR ''v''" "''valor''" "CHR ''a''" n]
    not_contains_replicate [of "CHR ''p''" "''pre'' @ [CHR 0xE7] @ ''o''" "CHR ''a''" n]
    not_contains_replicate [of "CHR ''c''" "''custo''" "CHR ''a''" n]
    not_contains_replicate [of "CHR ''l''" "''aluguel''" "CHR ''a''" n]
    not_contains_replicate [of "CHR ''t''" "''taxa''" "CHR ''a''" n]
    not_contains_replicate [of "CHR ''m''" "''multa''" "CHR ''a''" n]
    not_contains_replicate [of "CHR ''r''" "''reais''" "CHR ''a''" n]
    not_contains_replicate [of "CHR ''r''" "''r$''" "CHR ''a''" n]
    not_contains_replicate [of "CHR ''p''" "''pagamento''" "CHR ''a''" n]
  by simp

lemma not_pessoa_replicate_a: "\<not> consulta_sobre_pessoa (replicate n (CHR ''a''))"
  unfolding consulta_sobre_pessoa_def nomes_pessoa_def lower_replicate_a list_ex_Nil_iff list_ex_Cons_iff
  using not_contains_replicate [of "CHR ''e''" "''eduardo''" "CHR ''a''" n]
    not_contains_replicate [of "CHR ''r''" "''rocha''" "CHR ''a''" n]
    not_contains_replicate [of "CHR ''f''" "''fontenele''" "CHR ''a''" n]
    not_contains_replicate [of "CHR ''g''" "''gabriela''" "CHR ''a''" n]
    not_contains_replicate [of "CHR ''b''" "''bruno''" "CHR ''a''" n]
    not_contains_replicate [of "CHR ''n''" "''ana''" "CHR ''a''" n]
  by simp

lemma contains_append_left: "contains sub s \<Longrightarrow> contains sub (p @ s)"
  by (induction p) auto

lemma starts_with_append: "starts_with p (p @ s)"
  by (induction p) auto

lemma contains_Nil: "contains [] s"
  by (cases s) simp_all

lemma contains_self_append: "contains p (p @ s)"
proof (cases p)
  case Nil
  then show ?thesis by (simp add: contains_Nil)
next
  case (Cons c cs)
  then show ?thesis using starts_with_append [of p s] by simp
qed

lemma valor_consulta_longa: "consulta_sobre_valor consulta_longa"
proof -
  have "lower consulta_longa = replicate 1000 (CHR ''a'') @ ''valor''"
    by (simp add: consulta_longa_def lower_def lower_char_def)
  moreover have "contains ''valor'' (replicate 1000 (CHR ''a'') @ ''valor'')"
    by (rule contains_append_left) simp
  ultimately show ?thesis by (simp add: consulta_sobre_valor_def termos_valor_def)
qed

lemma valor_take_consulta_longa_valor: "consulta_sobre_valor (take 1000 consulta_longa_valor)"
proof -
  have t: "take 1000 consulta_longa_valor = ''valor'' @ replicate 995 (CHR ''a'')"
    by (simp add: consulta_longa_valor_def)
  have "lower (''valor'' @ replicate 995 (CHR ''a'')) = ''valor'' @ replicate 995 (CHR ''a'')"
    by (simp add: lower_def lower_char_def)
  moreover have "contains ''valor'' (''valor'' @ replicate 995 (CHR ''a''))"
    by (rule contains_self_append)
  ultimately show ?thesis unfolding t by (simp add: consulta_sobre_valor_def termos_valor_def)
qed

lemma strip_pergunta: "strip ''Qual o VALOR do aluguel de Eduardo?'' = ''Qual o VALOR do aluguel de Eduardo?''"
  by (rule strip_id) (simp_all add: isspace_def)

lemma valor_pergunta: "consulta_sobre_valor ''Qual o VALOR do aluguel de Eduardo?''"
  by code_simp

lemma pessoa_pergunta: "consulta_sobre_pessoa ''Qual o VALOR do aluguel de Eduardo?''"
  by code_simp


lemma processar_embed_calls:
  "embed_calls (drop (length tr) (snd (processar_e_indexar_documento w tr texto md ident index))) =
     [([texto], ''RETRIEVAL_DOCUMENT'')]"
proof -
  let ?e = "EmbedContent (GEMINI_EMBEDDING_MODEL (cfg w)) [texto] ''RETRIEVAL_DOCUMENT''"
  obtain r1 tr1 where e1: "gerar_embedding w tr texto = (r1, tr1)"
    by (cases "gerar_embedding w tr texto")
  have t1: "tr1 = tr @ [?e]" using snd_gerar_embedding [of w tr texto] e1 by simp
  obtain evs where t2: "snd (inicializar_pinecone w tr1) = tr1 @ evs" "embed_calls evs = []"
    using inicializar_pinecone_trace [of w tr1] by auto
  obtain r2 tr2 where e2: "inicializar_pinecone w tr1 = (r2, tr2)"
    by (cases "inicializar_pinecone w tr1")
  have t2': "tr2 = tr1 @ evs" using t2 e2 by simp
  show ?thesis
    using e1 e2 t1 t2' t2(2)
    by (auto simp: processar_e_indexar_documento_def Let_def embed_calls_append
             split: sum.splits option.splits prod.splits)
qed

lemma strip_aluguel: "strip ''aluguel'' = ''aluguel''"
  by (rule strip_id) (simp_all add: isspace_def)


lemma sem_metadata_processar: "sem_metadata m \<Longrightarrow> processar_match m = Inr None"
  by (auto simp: sem_metadata_def processar_match_def split: meta_attr.splits)

lemma completo_processar: "completo m \<Longrightarrow> \<exists>d. processar_match m = Inr (Some d)"
  by (auto simp: completo_def processar_match_def Let_def dict_get_def split: meta_attr.splits)

lemma formatar_resultados_todos_completos:
  "\<forall>m\<in>set ms. completo m \<Longrightarrow> length (formatar_resultados ms) = length ms"
proof (induction ms)
  case Nil
  then show ?case by simp
next
  case (Cons m ms)
  then obtain d where "processar_match m = Inr (Some d)"
    using completo_processar [of m] by auto
  then show ?case using Cons by simp
qed

lemma formatar_resultados_pula:
  assumes "processar_match m = Inl e \<or> processar_match m = Inr None"
  shows "formatar_resultados (xs @ m # ys) = formatar_resultados xs @ formatar_resultados ys"
proof -
  have "formatar_resultados [m] = []" using assms by auto
  then have "formatar_resultados (m # ys) = formatar_resultados ys"
    using formatar_resultados_append [of "[m]" ys] by simp
  then show ?thesis by (simp add: formatar_resultados_append)
qed

lemma processar_match_estranho: "processar_match match_estranho = Inl (OtherError ''object has no attribute get'')"
  by (simp add: processar_match_def match_estranho_def)

lemma busca_mundo_tres:
  "fst (buscar_documentos mundo_tres [] ''aluguel'' 5) =
     Inr (formatar_resultados ([match_completo] @ match_sem_metadata # [match_completo2]))"
  by code_simp


lemma snd_consulta_generica:
  "snd (consulta_generica w tr n limit) = tr @ [Query dummy_vector (min limit 10000) True]"
  by (simp add: consulta_generica_def split: sum.splits qresp.splits matches_attr.splits)

lemma snd_listar: "snd (listar_todos_documentos w tr limit) = snd (corpo_listagem w tr limit)"
  by (simp add: listar_todos_documentos_def split: prod.splits sum.splits)

lemma snd_corpo_listagem:
  "snd (corpo_listagem w tr limit) =
     (case fst (inicializar_pinecone w tr) of
        Inl e \<Rightarrow> snd (inicializar_pinecone w tr)
      | Inr ix \<Rightarrow>
          (case describe_index_stats w (snd (inicializar_pinecone w tr)) of
             Inl e \<Rightarrow> snd (inicializar_pinecone w tr) @ [DescribeIndexStats]
           | Inr st \<Rightarrow>
               if (case st of None \<Rightarrow> 0 | Some n \<Rightarrow> n) = 0
               then snd (inicializar_pinecone w tr) @ [DescribeIndexStats]
               else snd (inicializar_pinecone w tr) @
                      [DescribeIndexStats, Query dummy_vector (min limit 10000) True]))"
proof -
  obtain r1 tr1 where e1: "inicializar_pinecone w tr = (r1, tr1)"
    by (cases "inicializar_pinecone w tr")
  have g: "\<And>n. snd (case consulta_generica w (tr1 @ [DescribeIndexStats]) n limit of
                     (Inl e, tr2) \<Rightarrow> (Inr ([], n), tr2)
                   | (Inr r, tr2) \<Rightarrow> (Inr r, tr2)) =
             tr1 @ [DescribeIndexStats, Query dummy_vector (min limit 10000) True]"
  proof -
    fix n
    obtain r2 tr2 where e2: "consulta_generica w (tr1 @ [DescribeIndexStats]) n limit = (r2, tr2)"
      by (cases "consulta_generica w (tr1 @ [DescribeIndexStats]) n limit")
    have "tr2 = tr1 @ [DescribeIndexStats, Query dummy_vector (min limit 10000) True]"
      using snd_consulta_generica [of w "tr1 @ [DescribeIndexStats]" n limit] e2 by simp
    then show "snd (case consulta_generica w (tr1 @ [DescribeIndexStats]) n limit of
                     (Inl e, tr2) \<Rightarrow> (Inr ([], n), tr2)
                   | (Inr r, tr2) \<Rightarrow> (Inr r, tr2)) =
             tr1 @ [DescribeIndexStats, Query dummy_vector (min limit 10000) True]"
      using e2 by (cases r2) simp_all
  qed
  show ?thesis
    using e1
    by (simp add: corpo_listagem_def Let_def g split: sum.splits option.splits)
qed

lemma listar_query_calls:
  "query_calls (drop (length tr) (snd (listar_todos_documentos w tr limit))) =
     (case fst (inicializar_pinecone w tr) of
        Inl e \<Rightarrow> []
      | Inr ix \<Rightarrow>
          (case describe_index_stats w (snd (inicializar_pinecone w tr)) of
             Inl e \<Rightarrow> []
           | Inr st \<Rightarrow>
               if (case st of None \<Rightarrow> 0 | Some n \<Rightarrow> n) = 0 then []
               else [(dummy_vector, min limit 10000, True)]))"
proof -
  obtain evs where t: "snd (inicializar_pinecone w tr) = tr @ evs" "query_calls evs = []"
    using inicializar_pinecone_trace [of w tr] by auto
  show ?thesis
    by (simp add: snd_listar snd_corpo_listagem t query_calls_append
             split: sum.splits option.splits)
qed

lemma inicializar_mundo:
  "inicializar_pinecone (mundo emb (Inr st) qr) [] =
     (Inr (Index ''brito-ai'' ''host''),
      [PineconeClient ''chave'', PineconeIndex ''brito-ai'' ''host'', DescribeIndexStats])"
  by (simp add: inicializar_pinecone_def mundo_def config_exemplo_def)


lemma fst_listar:
  "fst (listar_todos_documentos w tr limit) =
     (case fst (inicializar_pinecone w tr) of
        Inl e \<Rightarrow> Inr ([], 0)
      | Inr ix \<Rightarrow>
          (case describe_index_stats w (snd (inicializar_pinecone w tr)) of
             Inl e \<Rightarrow> Inr ([], 0)
           | Inr st \<Rightarrow>
               if (case st of None \<Rightarrow> 0 | Some n \<Rightarrow> n) = 0 then Inr ([], 0)
               else
                 (case fst (consulta_generica w (snd (inicializar_pinecone w tr) @ [DescribeIndexStats])
                              (case st of None \<Rightarrow> 0 | Some n \<Rightarrow> n) limit) of
                    Inl e \<Rightarrow> Inr ([], case st of None \<Rightarrow> 0 | Some n \<Rightarrow> n)
                  | Inr r \<Rightarrow> Inr r)))"
proof -
  obtain r1 tr1 where e1: "inicializar_pinecone w tr = (r1, tr1)"
    by (cases "inicializar_pinecone w tr")
  have g: "\<And>n. fst (case (case consulta_generica w (tr1 @ [DescribeIndexStats]) n limit of
                     (Inl e, tr2) \<Rightarrow> (Inr ([], n), tr2)
                   | (Inr r, tr2) \<Rightarrow> (Inr r, tr2)) of
                   (Inl e, tr3) \<Rightarrow> (Inr ([], 0), tr3) | (Inr r, tr3) \<Rightarrow> (Inr r, tr3)) =
             (case fst (consulta_generica w (tr1 @ [DescribeIndexStats]) n limit) of
                Inl e \<Rightarrow> Inr ([], n) | Inr r \<Rightarrow> Inr r)"
  proof -
    fix n
    obtain r2 tr2 where e2: "consulta_generica w (tr1 @ [DescribeIndexStats]) n limit = (r2, tr2)"
      by (cases "consulta_generica w (tr1 @ [DescribeIndexStats]) n limit")
    show "fst (case (case consulta_generica w (tr1 @ [DescribeIndexStats]) n limit of
                     (Inl e, tr2) \<Rightarrow> (Inr ([], n), tr2)
                   | (Inr r, tr2) \<Rightarrow> (Inr r, tr2)) of
                   (Inl e, tr3) \<Rightarrow> (Inr ([], 0), tr3) | (Inr r, tr3) \<Rightarrow> (Inr r, tr3)) =
             (case fst (consulta_generica w (tr1 @ [DescribeIndexStats]) n limit) of
                Inl e \<Rightarrow> Inr ([], n) | Inr r \<Rightarrow> Inr r)"
      using e2 by (cases r2) simp_all
  qed
  show ?thesis
    using e1
    by (simp add: listar_todos_documentos_def corpo_listagem_def Let_def g
             split: sum.splits option.splits)
qed

lemma fst_consulta_generica_falha:
  assumes "index_query w tr dummy_vector (min limit 10000) True = Inl e \<or>
     (\<exists>ms. index_query w tr dummy_vector (min limit 10000) True = Inr (Resp (MatchesList ms))
            \<and> listar_matches ms = Inl e)"
  shows "fst (consulta_generica w tr n limit) = Inl e"
  using assms by (auto simp: consulta_generica_def)

lemma inicializar_sem_chave:
  "fst (inicializar_pinecone mundo_sem_chave []) =
     Inl (ValueError (''PINECONE_API_KEY n'' @ [CHR 0xE3] @ ''o encontrada no arquivo .env''))"
  by (simp add: inicializar_pinecone_def mundo_sem_chave_def mundo_def config_exemplo_def)

lemma listar_matches_tres:
  "listar_matches [match_completo, match_sem_metadata, match_completo2] =
     Inl (OtherError ''object has no attribute get'')"
  by (simp add: listar_match_def match_completo_def match_sem_metadata_def)


lemma embed_consulta_so_ValueError:
  "fst (embed_consulta w tr q) = Inl e \<Longrightarrow> class_of e = ValueErrorClass"
  by (auto simp: embed_consulta_def split: sum.splits)

lemma conectar_so_ConnectionError:
  "fst (conectar w tr) = Inl e \<Longrightarrow> class_of e = ConnectionErrorClass"
  by (auto simp: conectar_def split: sum.splits prod.splits)

lemma fst_tratar_excecao:
  "fst (tratar_excecao r) =
     (case fst r of
        Inl (ValueError m) \<Rightarrow> Inl (ValueError m)
      | Inl (ConnectionError m) \<Rightarrow> Inl (ConnectionError m)
      | Inl (OtherError m) \<Rightarrow> Inr []
      | Inr ds \<Rightarrow> Inr ds)"
  by (simp add: tratar_excecao_def split: prod.splits sum.splits exn.splits)

lemma tratar_excecao_classe:
  "fst r = Inl e \<Longrightarrow> class_of e \<noteq> OtherClass \<Longrightarrow> fst (tratar_excecao r) = Inl e"
  by (cases e) (simp_all add: fst_tratar_excecao)

lemma corpo_busca_embed_falha:
  "fst (embed_consulta w tr (enriquecer (truncar (strip q)))) = Inl e \<Longrightarrow>
     fst (corpo_busca w tr q k) = Inl e"
  by (cases "embed_consulta w tr (enriquecer (truncar (strip q)))")
     (simp add: corpo_busca_def)

lemma corpo_busca_conexao_falha:
  "fst (embed_consulta w tr (enriquecer (truncar (strip q)))) = Inr v \<Longrightarrow>
   fst (conectar w (snd (embed_consulta w tr (enriquecer (truncar (strip q)))))) = Inl e \<Longrightarrow>
     fst (corpo_busca w tr q k) = Inl e"
  by (cases "embed_consulta w tr (enriquecer (truncar (strip q)))";
      cases "conectar w (snd (embed_consulta w tr (enriquecer (truncar (strip q)))))")
     (simp add: corpo_busca_def)

lemma corpo_busca_apos_conexao:
  "fst (embed_consulta w tr (enriquecer (truncar (strip q)))) = Inr v \<Longrightarrow>
   fst (conectar w (snd (embed_consulta w tr (enriquecer (truncar (strip q)))))) = Inr ix \<Longrightarrow>
     fst (corpo_busca w tr q k) =
       (case fst (realizar_busca w
                   (snd (conectar w (snd (embed_consulta w tr (enriquecer (truncar (strip q)))))))
                   v k) of
          Inl e \<Rightarrow> Inl e
        | Inr None \<Rightarrow> Inr []
        | Inr (Some (MatchesList ms)) \<Rightarrow> Inr (formatar_resultados ms)
        | Inr (Some outro) \<Rightarrow> Inl (OtherError ''object is not iterable''))"
  by (cases "embed_consulta w tr (enriquecer (truncar (strip q)))";
      cases "conectar w (snd (embed_consulta w tr (enriquecer (truncar (strip q)))))";
      cases "realizar_busca w
                   (snd (conectar w (snd (embed_consulta w tr (enriquecer (truncar (strip q)))))))
                   v k")
     (simp add: corpo_busca_def split: sum.splits option.splits matches_attr.splits)

lemma realizar_busca_falha:
  "index_query w tr v k True = Inl e \<Longrightarrow>
     fst (realizar_busca w tr v k) = Inl (ValueError (''Falha na busca vetorial: '' @ str_exn e))"
  by (simp add: realizar_busca_def)

lemma busca_com_busca_falha:
  "fst (buscar_documentos mundo_busca_falha [] ''aluguel'' 5) =
     Inl (ValueError ''Falha na busca vetorial: timeout'')"
  by code_simp

lemma busca_com_embed_falha:
  "fst (buscar_documentos mundo_embed_falha [] ''aluguel'' 5) =
     Inl (ValueError (''N'' @ [CHR 0xE3] @ ''o foi poss'' @ [CHR 0xED]
                        @ ''vel gerar embedding para a consulta: timeout''))"
  by code_simp

lemma fst_embed_consulta_mundo:
  "fst (embed_consulta (mundo (Inr (Some (v # vs))) st qr) tr x) = Inr v"
  by (simp add: embed_consulta_def mundo_def first_embedding_def)

lemma fst_conectar_mundo:
  "fst (conectar (mundo emb (Inr st) qr) tr) = Inr (Index ''brito-ai'' ''host'')"
  by (simp add: conectar_def inicializar_pinecone_def mundo_def config_exemplo_def)

lemma index_query_mundo: "index_query (mundo emb st qr) tr v k b = qr"
  by (simp add: mundo_def)

lemma strip_aluguel_ne: "''aluguel'' \<noteq> [] \<and> strip ''aluguel'' \<noteq> []"
  by (simp add: strip_aluguel)

lemma buscar_nunca_OtherError: "fst (buscar_documentos w tr q k) \<noteq> Inl (OtherError m)"
  by (simp add: buscar_documentos_def fst_tratar_excecao split: sum.splits exn.splits)

lemma corpo_nao_iteravel:
  "fst (corpo_busca mundo_nao_iteravel [] ''aluguel'' 5) = Inl (OtherError ''object is not iterable'')"
  by code_simp

lemma corpo_embed_falha:
  "fst (corpo_busca mundo_embed_falha [] ''aluguel'' 5) =
     Inl (ValueError (''N'' @ [CHR 0xE3] @ ''o foi poss'' @ [CHR 0xED]
                        @ ''vel gerar embedding para a consulta: timeout''))"
  by code_simp

lemma corpo_sem_chave:
  "fst (corpo_busca mundo_sem_chave [] ''aluguel'' 5) =
     Inl (ConnectionError (''Falha na conex'' @ [CHR 0xE3] @ ''o com o Pinecone: PINECONE_API_KEY n''
                             @ [CHR 0xE3] @ ''o encontrada no arquivo .env''))"
  by code_simp


lemma corpo_busca_resultado:
  "fst (corpo_busca w tr q k) = Inr ds \<Longrightarrow> ds = [] \<or> (\<exists>ms. ds = formatar_resultados ms)"
  by (auto simp: corpo_busca_def split: prod.splits sum.splits option.splits matches_attr.splits)

lemma buscar_resultado:
  "fst (buscar_documentos w tr q k) = Inr ds \<Longrightarrow> ds = [] \<or> (\<exists>ms. ds = formatar_resultados ms)"
proof (cases "q = [] \<or> strip q = []")
  case True
  assume "fst (buscar_documentos w tr q k) = Inr ds"
  then show ?thesis using True by (auto simp: buscar_documentos_def)
next
  case False
  assume "fst (buscar_documentos w tr q k) = Inr ds"
  then have "fst (tratar_excecao (corpo_busca w tr q k)) = Inr ds"
    using False by (simp add: buscar_documentos_def)
  then have "ds = [] \<or> fst (corpo_busca w tr q k) = Inr ds"
    by (auto simp: fst_tratar_excecao split: sum.splits exn.splits)
  then show ?thesis using corpo_busca_resultado by blast
qed

lemma truthy_nao_vazio: "truthy v \<Longrightarrow> v \<noteq> MStr []"
  by (cases v) auto

lemma listar_matches_um_por_match:
  "listar_matches ms = Inr ls \<Longrightarrow>
     list_all2 (\<lambda>m l. \<exists>i md. m_id m = Some i \<and> m_metadata m = MetaDict md \<and>
                  l = \<lparr> l_id = i, l_arquivo = dict_get md ''arquivo'' (MStr []),
                        l_texto = dict_get md ''texto'' (MStr []) \<rparr>) ms ls"
proof (induction ms arbitrary: ls)
  case Nil
  then show ?case by simp
next
  case (Cons m ms)
  then obtain l ls' where p: "listar_match m = Inr l" "listar_matches ms = Inr ls'" "ls = l # ls'"
    by (auto split: sum.splits)
  from p(1) have "\<exists>i md. m_id m = Some i \<and> m_metadata m = MetaDict md \<and>
                  l = \<lparr> l_id = i, l_arquivo = dict_get md ''arquivo'' (MStr []),
                        l_texto = dict_get md ''texto'' (MStr []) \<rparr>"
    by (auto simp: listar_match_def split: option.splits meta_attr.splits)
  then show ?case using Cons.IH [OF p(2)] p(3) by simp
qed

lemma fst_consulta_generica_lista:
  "index_query w tr dummy_vector (min limit 10000) True = Inr (Resp (MatchesList ms)) \<Longrightarrow>
   listar_matches ms = Inr ls \<Longrightarrow>
     fst (consulta_generica w tr n limit) = Inr (ls, n)"
  by (simp add: consulta_generica_def)

lemma listar_incompleto:
  "fst (listar_todos_documentos mundo_incompleto [] 100) =
     Inr ([\<lparr> l_id = ''v1'', l_arquivo = MStr ''a.pdf'', l_texto = MStr ''clausula'' \<rparr>,
           \<lparr> l_id = ''v2'', l_arquivo = MStr ''b.pdf'', l_texto = MStr [] \<rparr>], 2)"
  by code_simp

lemma busca_incompleto:
  "fst (buscar_documentos mundo_incompleto [] ''aluguel'' 5) =
     Inr [\<lparr> doc_id = ''v1'', doc_score = 1, doc_arquivo = MStr ''a.pdf'',
            doc_texto = MStr ''clausula'', doc_secao = MStr [],
            doc_valores_monetarios = MStrs [], doc_cpfs = MStrs [], doc_nomes = MStrs [] \<rparr>]"
  by code_simp

lemma listar_matches_incompleto:
  "listar_matches [match_completo, match_sem_texto] =
     Inr [\<lparr> l_id = ''v1'', l_arquivo = MStr ''a.pdf'', l_texto = MStr ''clausula'' \<rparr>,
          \<lparr> l_id = ''v2'', l_arquivo = MStr ''b.pdf'', l_texto = MStr [] \<rparr>]"
  by (simp add: listar_match_def match_completo_def match_sem_texto_def dict_get_def)


lemma listar_matches_sucesso:
  "\<forall>m\<in>set ms. \<exists>i md. m_id m = Some i \<and> m_metadata m = MetaDict md \<Longrightarrow>
     \<exists>ls. listar_matches ms = Inr ls"
proof (induction ms)
  case Nil
  then show ?case by simp
next
  case (Cons m ms)
  then obtain i md where "m_id m = Some i" "m_metadata m = MetaDict md" by auto
  then have "\<exists>l. listar_match m = Inr l" by (simp add: listar_match_def)
  moreover have "\<exists>ls. listar_matches ms = Inr ls" using Cons by simp
  ultimately show ?case by auto
qed

section \<open>The search\<close>

text \<open>
  Claim C7. For every query string that is empty or consists only of whitespace,
  \<open>buscar_documentos\<close> returns the empty sequence at once: it raises nothing and the
  trace is unchanged, so neither the embedding service nor the vector index is contacted.
\<close>

theorem buscar_documentos_consulta_vazia:
  "\<forall>c\<in>set q. isspace c \<Longrightarrow> buscar_documentos w tr q k = (Inr [], tr)"
  by (simp add: buscar_documentos_def strip_Nil_iff)

theorem buscar_documentos_consulta_vazia_witness:
  "buscar_documentos (mundo (Inr (Some [[1]])) (Inr (Some 3)) (Inr (Resp (MatchesList [match_completo]))))
     [] ''   '' 5 = (Inr [], [])"
proof -
  have h: "\<forall>c\<in>set ''   ''. isspace c" by (simp add: isspace_def)
  show ?thesis using buscar_documentos_consulta_vazia [OF h] by simp
qed

text \<open>
  Claim C4. For every query whose trimmed form is longer than 1000 characters, the
  search makes exactly one embedding call, and the text it passes is the first 1000
  characters of the trimmed query followed by the suffix that the enrichment selects on
  those 1000 characters: the monetary suffix, else the person suffix, else nothing.
\<close>

theorem buscar_documentos_trunca_antes_de_enriquecer:
  assumes "length (strip q) > 1000"
  shows "embed_calls (drop (length tr) (snd (buscar_documentos w tr q k))) =
           [([take 1000 (strip q) @
                (if consulta_sobre_valor (take 1000 (strip q)) then sufixo_valor
                 else if consulta_sobre_pessoa (take 1000 (strip q)) then sufixo_pessoa
                 else [])],
             ''RETRIEVAL_QUERY'')]"
proof -
  from assms have ne1: "strip q \<noteq> []" by auto
  then have ne2: "q \<noteq> []" by (auto simp: strip_def)
  have "enriquecer (truncar (strip q)) =
          take 1000 (strip q) @
            (if consulta_sobre_valor (take 1000 (strip q)) then sufixo_valor
             else if consulta_sobre_pessoa (take 1000 (strip q)) then sufixo_pessoa
             else [])"
    using assms by (simp add: enriquecer_def truncar_def)
  then show ?thesis using buscar_documentos_embed_calls [OF ne2 ne1, of tr w k] by simp
qed

theorem buscar_documentos_trunca_antes_de_enriquecer_witness:
  "embed_calls (snd (buscar_documentos mundo_tres [] consulta_longa_valor 5)) =
     [([take 1000 consulta_longa_valor @ sufixo_valor], ''RETRIEVAL_QUERY'')]"
proof -
  have h: "length (strip consulta_longa_valor) > 1000"
    by (simp add: strip_consulta_longa_valor) (simp add: consulta_longa_valor_def)
  show ?thesis
    using buscar_documentos_trunca_antes_de_enriquecer [OF h, of "[]" mundo_tres 5]
      valor_take_consulta_longa_valor
    by (simp add: strip_consulta_longa_valor)
qed


text \<open>
  Claim C5, as stated: every query that contains a monetary term, case-insensitively,
  is embedded with the monetary suffix appended. The terms are looked for after the
  truncation: \<open>consulta_longa\<close> contains \<open>valor\<close> behind its first 1000 characters,
  and it is embedded as those 1000 characters with no suffix.
\<close>

theorem termo_apos_truncagem_counterexample:
  "consulta_sobre_valor consulta_longa \<and>
   embed_calls (snd (buscar_documentos mundo_tres [] consulta_longa 5)) =
     [([replicate 1000 (CHR ''a'')], ''RETRIEVAL_QUERY'')] \<and>
   \<not> contains sufixo_valor (replicate 1000 (CHR ''a''))"
proof -
  have nc: "\<not> contains sufixo_valor (replicate 1000 (CHR ''a''))"
    by (rule not_contains_replicate [of "CHR ''v''"]) (simp_all add: sufixo_valor_def)
  have ne: "consulta_longa \<noteq> []" "strip consulta_longa \<noteq> []"
    by (simp_all add: strip_consulta_longa) (simp_all add: consulta_longa_def)
  have l: "length consulta_longa > 1000" by (simp add: consulta_longa_def)
  have "enriquecer (truncar (strip consulta_longa)) = replicate 1000 (CHR ''a'')"
    using l not_valor_replicate_a [of 1000] not_pessoa_replicate_a [of 1000]
    by (simp add: strip_consulta_longa truncar_def take_consulta_longa enriquecer_def)
  then show ?thesis
    using buscar_documentos_embed_calls [OF ne, of "[]" mundo_tres 5] valor_consulta_longa nc
    by simp
qed


text \<open>
  Claim C5, amended. For every query whose trimmed text, cut to its first 1000
  characters, contains a monetary term case-insensitively, the search makes exactly one
  embedding call and its text is that trimmed and cut text followed by \<open>sufixo_valor\<close>
  (a space and the monetary boosting terms), whether or not the text also contains a
  person name: one suffix is appended, the monetary one.
\<close>

theorem buscar_documentos_sufixo_valor:
  assumes "consulta_sobre_valor (truncar (strip q))"
  shows "embed_calls (drop (length tr) (snd (buscar_documentos w tr q k))) =
           [([truncar (strip q) @ sufixo_valor], ''RETRIEVAL_QUERY'')]"
proof -
  have ne: "strip q \<noteq> []"
    using assms consulta_sobre_valor_Nil by (auto simp: truncar_def)
  then have ne2: "q \<noteq> []" by (auto simp: strip_def)
  have "enriquecer (truncar (strip q)) = truncar (strip q) @ sufixo_valor"
    using assms by (simp add: enriquecer_def)
  then show ?thesis using buscar_documentos_embed_calls [OF ne2 ne, of tr w k] by simp
qed

theorem buscar_documentos_sufixo_valor_witness:
  "consulta_sobre_pessoa ''Qual o VALOR do aluguel de Eduardo?'' \<and>
   embed_calls (snd (buscar_documentos mundo_tres [] ''Qual o VALOR do aluguel de Eduardo?'' 5)) =
     [([''Qual o VALOR do aluguel de Eduardo?'' @ sufixo_valor], ''RETRIEVAL_QUERY'')]"
proof -
  have t: "truncar (strip ''Qual o VALOR do aluguel de Eduardo?'') = ''Qual o VALOR do aluguel de Eduardo?''"
    by (simp add: strip_pergunta truncar_def)
  have h: "consulta_sobre_valor (truncar (strip ''Qual o VALOR do aluguel de Eduardo?''))"
    unfolding t by (rule valor_pergunta)
  show ?thesis
    using buscar_documentos_sufixo_valor [OF h, of "[]" mundo_tres 5] pessoa_pergunta
    unfolding t by simp
qed


text \<open>
  Claim C6. Every embedding call carries the purpose of its use, as the argument
  \<open>task_type\<close> handed to the embedding service: \<open>gerar_embedding\<close> makes one call with
  \<open>RETRIEVAL_DOCUMENT\<close>, and so does \<open>processar_e_indexar_documento\<close>, which embeds
  through it; every embedding call of \<open>buscar_documentos\<close> carries \<open>RETRIEVAL_QUERY\<close>,
  and for a query that is not blank there is exactly one, on the enriched text.
\<close>

theorem finalidade_do_embedding:
  "snd (gerar_embedding w tr texto) =
     tr @ [EmbedContent (GEMINI_EMBEDDING_MODEL (cfg w)) [texto] ''RETRIEVAL_DOCUMENT'']
   \<and> embed_calls (drop (length tr) (snd (processar_e_indexar_documento w tr texto md ident index))) =
       [([texto], ''RETRIEVAL_DOCUMENT'')]
   \<and> (\<forall>c \<in> set (embed_calls (drop (length tr) (snd (buscar_documentos w tr q k)))).
         snd c = ''RETRIEVAL_QUERY'')
   \<and> (q \<noteq> [] \<and> strip q \<noteq> [] \<longrightarrow>
         embed_calls (drop (length tr) (snd (buscar_documentos w tr q k))) =
           [([enriquecer (truncar (strip q))], ''RETRIEVAL_QUERY'')])"
proof -
  have a: "q \<noteq> [] \<and> strip q \<noteq> [] \<longrightarrow>
         embed_calls (drop (length tr) (snd (buscar_documentos w tr q k))) =
           [([enriquecer (truncar (strip q))], ''RETRIEVAL_QUERY'')]"
    using buscar_documentos_embed_calls [of q tr w k] by blast
  have b: "\<forall>c \<in> set (embed_calls (drop (length tr) (snd (buscar_documentos w tr q k)))).
         snd c = ''RETRIEVAL_QUERY''"
  proof (cases "q \<noteq> [] \<and> strip q \<noteq> []")
    case True
    then show ?thesis using a by simp
  next
    case False
    then show ?thesis by (auto simp: buscar_documentos_def)
  qed
  show ?thesis using a b snd_gerar_embedding [of w tr texto] processar_embed_calls by blast
qed

theorem finalidade_do_embedding_witness:
  "snd (gerar_embedding mundo_tres [] ''contrato'') =
     [EmbedContent ''models/embedding-001'' [''contrato''] ''RETRIEVAL_DOCUMENT'']
   \<and> embed_calls (snd (processar_e_indexar_documento mundo_tres [] ''contrato'' [] None None)) =
       [([''contrato''], ''RETRIEVAL_DOCUMENT'')]
   \<and> embed_calls (snd (buscar_documentos mundo_tres [] ''aluguel'' 5)) =
       [([enriquecer (truncar (strip ''aluguel''))], ''RETRIEVAL_QUERY'')]"
proof -
  have h: "''aluguel'' \<noteq> [] \<and> strip ''aluguel'' \<noteq> []" by (simp add: strip_aluguel)
  have m: "GEMINI_EMBEDDING_MODEL (cfg mundo_tres) = ''models/embedding-001''"
    by (simp add: mundo_tres_def mundo_def config_exemplo_def)
  show ?thesis
    using finalidade_do_embedding [of mundo_tres "[]" "''contrato''" "[]" None None "''aluguel''" 5] h m
    by simp
qed


text \<open>
  Claim C8. In the loop that formats the results, a match whose processing raises, and
  likewise a match that lacks a non-empty metadata object, is skipped and nothing else
  changes: the result is the result on the matches before it followed by the result on
  the matches after it. In particular, of three matches of which one lacks metadata and
  the other two have a file name and a text, exactly two records are returned.
\<close>

theorem falha_em_um_match_nao_aborta:
  "(processar_match m = Inl e \<longrightarrow>
      formatar_resultados (xs @ m # ys) = formatar_resultados xs @ formatar_resultados ys)
   \<and> (sem_metadata m \<longrightarrow>
      formatar_resultados (xs @ m # ys) = formatar_resultados xs @ formatar_resultados ys)
   \<and> (sem_metadata m \<and> (\<forall>x\<in>set (xs @ ys). completo x) \<and> length (xs @ ys) = 2 \<longrightarrow>
      length (formatar_resultados (xs @ m # ys)) = 2)"
proof -
  have a: "processar_match m = Inl e \<longrightarrow>
      formatar_resultados (xs @ m # ys) = formatar_resultados xs @ formatar_resultados ys"
    using formatar_resultados_pula [of m e xs ys] by blast
  have b: "sem_metadata m \<longrightarrow>
      formatar_resultados (xs @ m # ys) = formatar_resultados xs @ formatar_resultados ys"
    using formatar_resultados_pula [of m e xs ys] sem_metadata_processar [of m] by blast
  have c: "sem_metadata m \<and> (\<forall>x\<in>set (xs @ ys). completo x) \<and> length (xs @ ys) = 2 \<longrightarrow>
      length (formatar_resultados (xs @ m # ys)) = 2"
  proof
    assume h: "sem_metadata m \<and> (\<forall>x\<in>set (xs @ ys). completo x) \<and> length (xs @ ys) = 2"
    then have "formatar_resultados (xs @ m # ys) = formatar_resultados (xs @ ys)"
      using b by (simp add: formatar_resultados_append)
    moreover have "length (formatar_resultados (xs @ ys)) = length (xs @ ys)"
      using h formatar_resultados_todos_completos [of "xs @ ys"] by blast
    ultimately show "length (formatar_resultados (xs @ m # ys)) = 2" using h by simp
  qed
  show ?thesis using a b c by blast
qed

theorem falha_em_um_match_nao_aborta_witness:
  "formatar_resultados ([match_completo] @ match_estranho # [match_completo2]) =
     formatar_resultados [match_completo] @ formatar_resultados [match_completo2]
   \<and> length (formatar_resultados ([match_completo] @ match_sem_metadata # [match_completo2])) = 2
   \<and> fst (buscar_documentos mundo_tres [] ''aluguel'' 5) =
       Inr (formatar_resultados ([match_completo] @ match_sem_metadata # [match_completo2]))"
proof -
  have s: "sem_metadata match_sem_metadata" by (simp add: sem_metadata_def match_sem_metadata_def)
  have c: "\<forall>x\<in>set ([match_completo] @ [match_completo2]). completo x"
    by (simp add: completo_def match_completo_def match_completo2_def dict_get_def)
  have l: "length ([match_completo] @ [match_completo2]) = 2" by simp
  have a: "formatar_resultados ([match_completo] @ match_estranho # [match_completo2]) =
     formatar_resultados [match_completo] @ formatar_resultados [match_completo2]"
    using falha_em_um_match_nao_aborta [of match_estranho "OtherError ''object has no attribute get''"
        "[match_completo]" "[match_completo2]"] processar_match_estranho
    by blast
  have b: "length (formatar_resultados ([match_completo] @ match_sem_metadata # [match_completo2])) = 2"
    using falha_em_um_match_nao_aborta [of match_sem_metadata e "[match_completo]" "[match_completo2]"]
      s c l
    by blast
  show ?thesis using a b busca_mundo_tres by blast
qed


text \<open>
  Claim C2, as stated: a failure of the query of the index is surfaced as an error of a
  kind of its own, distinct from the kind used for embedding failures. The module has
  no such kind: with a query that raises and with an embedding service that raises, the
  search raises a \<open>ValueError\<close> both times, and the two differ in their message only.
\<close>

theorem falha_da_busca_counterexample:
  "fst (buscar_documentos mundo_busca_falha [] ''aluguel'' 5) =
     Inl (ValueError ''Falha na busca vetorial: timeout'')
   \<and> fst (buscar_documentos mundo_embed_falha [] ''aluguel'' 5) =
     Inl (ValueError (''N'' @ [CHR 0xE3] @ ''o foi poss'' @ [CHR 0xED]
                        @ ''vel gerar embedding para a consulta: timeout''))
   \<and> class_of (ValueError ''Falha na busca vetorial: timeout'') =
       class_of (ValueError (''N'' @ [CHR 0xE3] @ ''o foi poss'' @ [CHR 0xED]
                        @ ''vel gerar embedding para a consulta: timeout''))"
  using busca_com_busca_falha busca_com_embed_falha by simp



text \<open>
  Claim C2, amended. For a query that is not blank: a failure of the embedding call is
  raised to the caller as a \<open>ValueError\<close>; a failure of the connection is raised as a
  \<open>ConnectionError\<close>; and a failure of the query of the index is raised as a
  \<open>ValueError\<close> whose message is \<open>Falha na busca vetorial: \<close> followed by the message of
  the failure. So the failure of the query has the kind of the embedding failure, is told
  from it by its message, and is distinct from the connection failure. (A blank query
  raises nothing, see C7.)
\<close>

theorem falha_da_busca_e_ValueError:
  assumes "q \<noteq> []" and "strip q \<noteq> []"
  shows
  "(fst (embed_consulta w tr (enriquecer (truncar (strip q)))) = Inl e \<longrightarrow>
      fst (buscar_documentos w tr q k) = Inl e \<and> class_of e = ValueErrorClass)
   \<and> (fst (embed_consulta w tr (enriquecer (truncar (strip q)))) = Inr v
        \<and> fst (conectar w (snd (embed_consulta w tr (enriquecer (truncar (strip q)))))) = Inl e \<longrightarrow>
      fst (buscar_documentos w tr q k) = Inl e \<and> class_of e = ConnectionErrorClass)
   \<and> (fst (embed_consulta w tr (enriquecer (truncar (strip q)))) = Inr v
        \<and> fst (conectar w (snd (embed_consulta w tr (enriquecer (truncar (strip q)))))) = Inr ix
        \<and> index_query w (snd (conectar w (snd (embed_consulta w tr (enriquecer (truncar (strip q)))))))
             v k True = Inl e \<longrightarrow>
      fst (buscar_documentos w tr q k) =
        Inl (ValueError (''Falha na busca vetorial: '' @ str_exn e)))"
proof -
  let ?qp = "enriquecer (truncar (strip q))"
  have b: "fst (buscar_documentos w tr q k) = fst (tratar_excecao (corpo_busca w tr q k))"
    using assms by (simp add: buscar_documentos_def)
  have 1: "fst (embed_consulta w tr ?qp) = Inl e \<longrightarrow>
      fst (buscar_documentos w tr q k) = Inl e \<and> class_of e = ValueErrorClass"
  proof
    assume h: "fst (embed_consulta w tr ?qp) = Inl e"
    then have c: "class_of e = ValueErrorClass" by (rule embed_consulta_so_ValueError)
    have "fst (corpo_busca w tr q k) = Inl e" using h by (rule corpo_busca_embed_falha)
    then have "fst (tratar_excecao (corpo_busca w tr q k)) = Inl e"
      using c by (simp add: tratar_excecao_classe)
    then show "fst (buscar_documentos w tr q k) = Inl e \<and> class_of e = ValueErrorClass"
      using b c by simp
  qed
  have 2: "fst (embed_consulta w tr ?qp) = Inr v
        \<and> fst (conectar w (snd (embed_consulta w tr ?qp))) = Inl e \<longrightarrow>
      fst (buscar_documentos w tr q k) = Inl e \<and> class_of e = ConnectionErrorClass"
  proof
    assume h: "fst (embed_consulta w tr ?qp) = Inr v
        \<and> fst (conectar w (snd (embed_consulta w tr ?qp))) = Inl e"
    then have c: "class_of e = ConnectionErrorClass"
      using conectar_so_ConnectionError by blast
    have "fst (corpo_busca w tr q k) = Inl e" using h corpo_busca_conexao_falha by blast
    then have "fst (tratar_excecao (corpo_busca w tr q k)) = Inl e"
      using c by (simp add: tratar_excecao_classe)
    then show "fst (buscar_documentos w tr q k) = Inl e \<and> class_of e = ConnectionErrorClass"
      using b c by simp
  qed
  have 3: "fst (embed_consulta w tr ?qp) = Inr v
        \<and> fst (conectar w (snd (embed_consulta w tr ?qp))) = Inr ix
        \<and> index_query w (snd (conectar w (snd (embed_consulta w tr ?qp)))) v k True = Inl e \<longrightarrow>
      fst (buscar_documentos w tr q k) =
        Inl (ValueError (''Falha na busca vetorial: '' @ str_exn e))"
  proof
    assume h: "fst (embed_consulta w tr ?qp) = Inr v
        \<and> fst (conectar w (snd (embed_consulta w tr ?qp))) = Inr ix
        \<and> index_query w (snd (conectar w (snd (embed_consulta w tr ?qp)))) v k True = Inl e"
    then have "fst (realizar_busca w (snd (conectar w (snd (embed_consulta w tr ?qp)))) v k) =
        Inl (ValueError (''Falha na busca vetorial: '' @ str_exn e))"
      using realizar_busca_falha by blast
    then have "fst (corpo_busca w tr q k) =
        Inl (ValueError (''Falha na busca vetorial: '' @ str_exn e))"
      using h corpo_busca_apos_conexao [of w tr q v ix k] by simp
    then show "fst (buscar_documentos w tr q k) =
        Inl (ValueError (''Falha na busca vetorial: '' @ str_exn e))"
      using b by (simp add: fst_tratar_excecao)
  qed
  show ?thesis using 1 2 3 by blast
qed

theorem falha_da_busca_e_ValueError_witness:
  "fst (buscar_documentos mundo_busca_falha [] ''aluguel'' 5) =
     Inl (ValueError (''Falha na busca vetorial: '' @ str_exn (OtherError ''timeout'')))"
proof -
  have ne: "''aluguel'' \<noteq> []" "strip ''aluguel'' \<noteq> []" using strip_aluguel_ne by simp_all
  show ?thesis
    using falha_da_busca_e_ValueError [OF ne, where w = mundo_busca_falha and tr = "[]"
        and v = "[1]" and k = 5 and ix = "Index ''brito-ai'' ''host''"
        and e = "OtherError ''timeout''"]
    unfolding mundo_busca_falha_def
    by (simp add: fst_embed_consulta_mundo fst_conectar_mundo index_query_mundo)
qed


text \<open>
  Claim C3. \<open>buscar_documentos\<close> never raises anything but a \<open>ValueError\<close> or a
  \<open>ConnectionError\<close>. For a query that is not blank, any other exception that leaves
  the body of its \<open>try\<close> is turned into the return of the empty list, and a
  \<open>ValueError\<close> or \<open>ConnectionError\<close> that leaves the body is raised again unchanged.
\<close>

theorem excecao_inesperada_e_engolida:
  "(\<forall>m. fst (buscar_documentos w tr q k) \<noteq> Inl (OtherError m))
   \<and> (q \<noteq> [] \<and> strip q \<noteq> [] \<and> fst (corpo_busca w tr q k) = Inl (OtherError m) \<longrightarrow>
        buscar_documentos w tr q k = (Inr [], snd (corpo_busca w tr q k)))
   \<and> (q \<noteq> [] \<and> strip q \<noteq> [] \<and> fst (corpo_busca w tr q k) = Inl (ValueError m) \<longrightarrow>
        buscar_documentos w tr q k = (Inl (ValueError m), snd (corpo_busca w tr q k)))
   \<and> (q \<noteq> [] \<and> strip q \<noteq> [] \<and> fst (corpo_busca w tr q k) = Inl (ConnectionError m) \<longrightarrow>
        buscar_documentos w tr q k = (Inl (ConnectionError m), snd (corpo_busca w tr q k)))"
proof -
  have a: "\<forall>m. fst (buscar_documentos w tr q k) \<noteq> Inl (OtherError m)"
    using buscar_nunca_OtherError by blast
  have b: "\<And>r. q \<noteq> [] \<and> strip q \<noteq> [] \<Longrightarrow>
      buscar_documentos w tr q k =
        (fst (tratar_excecao (corpo_busca w tr q k)), snd (corpo_busca w tr q k))"
    by (simp add: buscar_documentos_def snd_tratar_excecao prod_eq_iff)
  show ?thesis using a b by (auto simp: fst_tratar_excecao)
qed

theorem excecao_inesperada_e_engolida_witness:
  "fst (corpo_busca mundo_nao_iteravel [] ''aluguel'' 5) = Inl (OtherError ''object is not iterable'')
   \<and> fst (buscar_documentos mundo_nao_iteravel [] ''aluguel'' 5) = Inr []
   \<and> fst (buscar_documentos mundo_embed_falha [] ''aluguel'' 5) =
       Inl (ValueError (''N'' @ [CHR 0xE3] @ ''o foi poss'' @ [CHR 0xED]
                          @ ''vel gerar embedding para a consulta: timeout''))
   \<and> fst (buscar_documentos mundo_sem_chave [] ''aluguel'' 5) =
       Inl (ConnectionError (''Falha na conex'' @ [CHR 0xE3] @ ''o com o Pinecone: PINECONE_API_KEY n''
                               @ [CHR 0xE3] @ ''o encontrada no arquivo .env''))"
proof -
  have a: "fst (buscar_documentos mundo_nao_iteravel [] ''aluguel'' 5) = Inr []"
    using excecao_inesperada_e_engolida [of mundo_nao_iteravel "[]" "''aluguel''" 5
        "''object is not iterable''"] strip_aluguel_ne corpo_nao_iteravel
    by simp
  have b: "fst (buscar_documentos mundo_embed_falha [] ''aluguel'' 5) =
       Inl (ValueError (''N'' @ [CHR 0xE3] @ ''o foi poss'' @ [CHR 0xED]
                          @ ''vel gerar embedding para a consulta: timeout''))"
    using excecao_inesperada_e_engolida [of mundo_embed_falha "[]" "''aluguel''" 5
        "''N'' @ [CHR 0xE3] @ ''o foi poss'' @ [CHR 0xED]
                          @ ''vel gerar embedding para a consulta: timeout''"]
      strip_aluguel_ne corpo_embed_falha
    by simp
  have c: "fst (buscar_documentos mundo_sem_chave [] ''aluguel'' 5) =
       Inl (ConnectionError (''Falha na conex'' @ [CHR 0xE3] @ ''o com o Pinecone: PINECONE_API_KEY n''
                               @ [CHR 0xE3] @ ''o encontrada no arquivo .env''))"
    using excecao_inesperada_e_engolida [of mundo_sem_chave "[]" "''aluguel''" 5
        "''Falha na conex'' @ [CHR 0xE3] @ ''o com o Pinecone: PINECONE_API_KEY n''
                               @ [CHR 0xE3] @ ''o encontrada no arquivo .env''"]
      strip_aluguel_ne corpo_sem_chave
    by simp
  show ?thesis using a b c corpo_nao_iteravel by blast
qed

section \<open>The listing\<close>

text \<open>
  Claim C9. For every limit, each query that \<open>listar_todos_documentos\<close> issues has
  the all-zero vector of dimension 768 as its vector, \<open>top_k = min(limit, 10000)\<close> and
  \<open>include_metadata = True\<close>; it issues exactly one such query when the connection
  succeeds and the index reports a total that is not zero. With limit 50 the query asks
  for 50.
\<close>

theorem listar_consulta_vetor_nulo:
  "dummy_vector = replicate 768 0
   \<and> (\<forall>c \<in> set (query_calls (drop (length tr) (snd (listar_todos_documentos w tr limit)))).
        c = (dummy_vector, min limit 10000, True))
   \<and> (fst (inicializar_pinecone w tr) = Inr ix
        \<and> describe_index_stats w (snd (inicializar_pinecone w tr)) = Inr (Some n) \<and> n \<noteq> 0 \<longrightarrow>
      query_calls (drop (length tr) (snd (listar_todos_documentos w tr limit))) =
        [(dummy_vector, min limit 10000, True)])"
proof -
  have a: "\<forall>c \<in> set (query_calls (drop (length tr) (snd (listar_todos_documentos w tr limit)))).
        c = (dummy_vector, min limit 10000, True)"
    by (auto simp: listar_query_calls split: sum.splits option.splits if_splits)
  have b: "fst (inicializar_pinecone w tr) = Inr ix
        \<and> describe_index_stats w (snd (inicializar_pinecone w tr)) = Inr (Some n) \<and> n \<noteq> 0 \<longrightarrow>
      query_calls (drop (length tr) (snd (listar_todos_documentos w tr limit))) =
        [(dummy_vector, min limit 10000, True)]"
    by (auto simp: listar_query_calls)
  show ?thesis using a b dummy_vector_def by blast
qed

theorem listar_consulta_vetor_nulo_witness:
  "query_calls (snd (listar_todos_documentos mundo_tres [] 50)) = [(replicate 768 0, 50, True)]"
proof -
  have i: "fst (inicializar_pinecone mundo_tres []) = Inr (Index ''brito-ai'' ''host'')"
    by (simp add: mundo_tres_def inicializar_mundo)
  have d: "describe_index_stats mundo_tres (snd (inicializar_pinecone mundo_tres [])) = Inr (Some 3)"
    by (simp add: mundo_tres_def mundo_def)
  have n: "(3::int) \<noteq> 0" by simp
  have m: "min (50::int) 10000 = 50" by simp
  note t = listar_consulta_vetor_nulo [of "[]" mundo_tres 50 "Index ''brito-ai'' ''host''" 3]
  from t have z: "dummy_vector = replicate 768 0" by blast
  from t i d n have "query_calls (drop (length ([]::event list)) (snd (listar_todos_documentos mundo_tres [] 50))) =
        [(dummy_vector, min 50 10000, True)]" by blast
  then show ?thesis unfolding z m by simp
qed


text \<open>
  Claim C10. \<open>listar_todos_documentos\<close> never raises: its result is always a pair of a
  list and a count. When the connection to the index fails it is the empty list with
  0; when the index reports a total of 0 (or no total) it is the empty list with 0 and
  no query is issued; when the query raises, or the processing of a match raises, after
  the statistics gave a total that is not 0, it is the empty list with that total.
\<close>

theorem listar_nunca_propaga:
  "(\<exists>r. fst (listar_todos_documentos w tr limit) = Inr r)
   \<and> (fst (inicializar_pinecone w tr) = Inl e \<longrightarrow>
        fst (listar_todos_documentos w tr limit) = Inr ([], 0))
   \<and> (fst (inicializar_pinecone w tr) = Inr ix
        \<and> describe_index_stats w (snd (inicializar_pinecone w tr)) = Inr st
        \<and> (case st of None \<Rightarrow> 0 | Some n \<Rightarrow> n) = 0 \<longrightarrow>
        fst (listar_todos_documentos w tr limit) = Inr ([], 0)
        \<and> query_calls (drop (length tr) (snd (listar_todos_documentos w tr limit))) = [])
   \<and> (fst (inicializar_pinecone w tr) = Inr ix
        \<and> describe_index_stats w (snd (inicializar_pinecone w tr)) = Inr (Some n) \<and> n \<noteq> 0
        \<and> (index_query w (snd (inicializar_pinecone w tr) @ [DescribeIndexStats])
              dummy_vector (min limit 10000) True = Inl e'
            \<or> (\<exists>ms. index_query w (snd (inicializar_pinecone w tr) @ [DescribeIndexStats])
                       dummy_vector (min limit 10000) True = Inr (Resp (MatchesList ms))
                     \<and> listar_matches ms = Inl e')) \<longrightarrow>
        fst (listar_todos_documentos w tr limit) = Inr ([], n))"
proof -
  have a: "\<exists>r. fst (listar_todos_documentos w tr limit) = Inr r"
    by (simp add: fst_listar split: sum.splits option.splits)
  have b: "fst (inicializar_pinecone w tr) = Inl e \<longrightarrow>
        fst (listar_todos_documentos w tr limit) = Inr ([], 0)"
    by (simp add: fst_listar)
  have c: "fst (inicializar_pinecone w tr) = Inr ix
        \<and> describe_index_stats w (snd (inicializar_pinecone w tr)) = Inr st
        \<and> (case st of None \<Rightarrow> 0 | Some n \<Rightarrow> n) = 0 \<longrightarrow>
        fst (listar_todos_documentos w tr limit) = Inr ([], 0)
        \<and> query_calls (drop (length tr) (snd (listar_todos_documentos w tr limit))) = []"
    by (simp add: fst_listar listar_query_calls)
  have d: "fst (inicializar_pinecone w tr) = Inr ix
        \<and> describe_index_stats w (snd (inicializar_pinecone w tr)) = Inr (Some n) \<and> n \<noteq> 0
        \<and> (index_query w (snd (inicializar_pinecone w tr) @ [DescribeIndexStats])
              dummy_vector (min limit 10000) True = Inl e'
            \<or> (\<exists>ms. index_query w (snd (inicializar_pinecone w tr) @ [DescribeIndexStats])
                       dummy_vector (min limit 10000) True = Inr (Resp (MatchesList ms))
                     \<and> listar_matches ms = Inl e')) \<longrightarrow>
        fst (listar_todos_documentos w tr limit) = Inr ([], n)"
  proof
    assume h: "fst (inicializar_pinecone w tr) = Inr ix
        \<and> describe_index_stats w (snd (inicializar_pinecone w tr)) = Inr (Some n) \<and> n \<noteq> 0
        \<and> (index_query w (snd (inicializar_pinecone w tr) @ [DescribeIndexStats])
              dummy_vector (min limit 10000) True = Inl e'
            \<or> (\<exists>ms. index_query w (snd (inicializar_pinecone w tr) @ [DescribeIndexStats])
                       dummy_vector (min limit 10000) True = Inr (Resp (MatchesList ms))
                     \<and> listar_matches ms = Inl e'))"
    then have "fst (consulta_generica w (snd (inicializar_pinecone w tr) @ [DescribeIndexStats]) n limit) = Inl e'"
      using fst_consulta_generica_falha
        [of w "snd (inicializar_pinecone w tr) @ [DescribeIndexStats]" limit e' n] by blast
    then show "fst (listar_todos_documentos w tr limit) = Inr ([], n)"
      using h by (simp add: fst_listar)
  qed
  show ?thesis using a b c d by blast
qed


theorem listar_nunca_propaga_witness:
  "fst (listar_todos_documentos mundo_sem_chave [] 100) = Inr ([], 0)
   \<and> fst (listar_todos_documentos mundo_vazio [] 100) = Inr ([], 0)
   \<and> query_calls (snd (listar_todos_documentos mundo_vazio [] 100)) = []
   \<and> fst (listar_todos_documentos mundo_busca_falha [] 100) = Inr ([], 3)
   \<and> fst (listar_todos_documentos mundo_tres [] 100) = Inr ([], 3)"
proof -
  let ?ix = "Index ''brito-ai'' ''host''"
  let ?tr = "[PineconeClient ''chave'', PineconeIndex ''brito-ai'' ''host'', DescribeIndexStats]"
  have a: "fst (listar_todos_documentos mundo_sem_chave [] 100) = Inr ([], 0)"
    using listar_nunca_propaga [of mundo_sem_chave "[]" 100
        "ValueError (''PINECONE_API_KEY n'' @ [CHR 0xE3] @ ''o encontrada no arquivo .env'')"]
      inicializar_sem_chave
    by blast
  have iv: "fst (inicializar_pinecone mundo_vazio []) = Inr ?ix"
    "describe_index_stats mundo_vazio (snd (inicializar_pinecone mundo_vazio [])) = Inr (Some 0)"
    by (simp_all add: mundo_vazio_def inicializar_mundo) (simp add: mundo_def)
  have z: "(case Some (0::int) of None \<Rightarrow> 0 | Some n \<Rightarrow> n) = 0" by simp
  have b: "fst (listar_todos_documentos mundo_vazio [] 100) = Inr ([], 0)
     \<and> query_calls (drop (length ([]::event list)) (snd (listar_todos_documentos mundo_vazio [] 100))) = []"
    using listar_nunca_propaga [of mundo_vazio "[]" 100 e ?ix "Some 0"] iv z
    by blast
  have ib: "fst (inicializar_pinecone mundo_busca_falha []) = Inr ?ix"
    "describe_index_stats mundo_busca_falha (snd (inicializar_pinecone mundo_busca_falha [])) = Inr (Some 3)"
    "index_query mundo_busca_falha (snd (inicializar_pinecone mundo_busca_falha []) @ [DescribeIndexStats])
       dummy_vector (min 100 10000) True = Inl (OtherError ''timeout'')"
    by (simp_all add: mundo_busca_falha_def inicializar_mundo) (simp_all add: mundo_def)
  have n: "(3::int) \<noteq> 0" by simp
  have c: "fst (listar_todos_documentos mundo_busca_falha [] 100) = Inr ([], 3)"
    using listar_nunca_propaga [of mundo_busca_falha "[]" 100 e ?ix st 3 "OtherError ''timeout''"] ib n
    by blast
  have it: "fst (inicializar_pinecone mundo_tres []) = Inr ?ix"
    "describe_index_stats mundo_tres (snd (inicializar_pinecone mundo_tres [])) = Inr (Some 3)"
    "index_query mundo_tres (snd (inicializar_pinecone mundo_tres []) @ [DescribeIndexStats])
       dummy_vector (min 100 10000) True =
       Inr (Resp (MatchesList [match_completo, match_sem_metadata, match_completo2]))"
    by (simp_all add: mundo_tres_def inicializar_mundo) (simp_all add: mundo_def)
  have d: "fst (listar_todos_documentos mundo_tres [] 100) = Inr ([], 3)"
    using listar_nunca_propaga [of mundo_tres "[]" 100 e ?ix st 3
        "OtherError ''object has no attribute get''"] it n listar_matches_tres
    by blast
  show ?thesis using a b c d by simp
qed


section \<open>Records surfaced by the search and by the listing\<close>

text \<open>
  Claim C1, as stated: every record that the search or the listing returns has a
  file name and a text that are not empty. The listing has no such filter: a match whose
  metadata holds a file name and no text is listed, with the empty string as its text.
\<close>

theorem listagem_sem_filtro_counterexample:
  "fst (listar_todos_documentos mundo_incompleto [] 100) =
     Inr ([\<lparr> l_id = ''v1'', l_arquivo = MStr ''a.pdf'', l_texto = MStr ''clausula'' \<rparr>,
           \<lparr> l_id = ''v2'', l_arquivo = MStr ''b.pdf'', l_texto = MStr [] \<rparr>], 2)
   \<and> l_texto \<lparr> l_id = ''v2'', l_arquivo = MStr ''b.pdf'', l_texto = MStr [] \<rparr> = MStr []"
  using listar_incompleto by simp


text \<open>
  Claim C1, amended. Every record that \<open>buscar_documentos\<close> returns has a truthy
  \<open>arquivo\<close> and a truthy \<open>texto\<close>, hence neither is the empty string: a match missing
  either is dropped. \<open>listar_todos_documentos\<close> does not filter: when the connection
  succeeds, the total is not 0, the query returns a list of matches and every match has
  an id and a metadata mapping, its loop succeeds and it returns one record for each
  match, in order, whose \<open>arquivo\<close> and \<open>texto\<close> are read from the metadata with the
  empty string as default.
\<close>

theorem registros_completos:
  "(fst (buscar_documentos w tr q k) = Inr ds \<longrightarrow>
      (\<forall>d\<in>set ds. truthy (doc_arquivo d) \<and> truthy (doc_texto d)
                    \<and> doc_arquivo d \<noteq> MStr [] \<and> doc_texto d \<noteq> MStr []))
   \<and> (fst (inicializar_pinecone w tr) = Inr ix
        \<and> describe_index_stats w (snd (inicializar_pinecone w tr)) = Inr (Some n) \<and> n \<noteq> 0
        \<and> index_query w (snd (inicializar_pinecone w tr) @ [DescribeIndexStats])
             dummy_vector (min limit 10000) True = Inr (Resp (MatchesList ms))
        \<and> (\<forall>m\<in>set ms. \<exists>i md. m_id m = Some i \<and> m_metadata m = MetaDict md) \<longrightarrow>
      (\<exists>ls. fst (listar_todos_documentos w tr limit) = Inr (ls, n)
         \<and> listar_matches ms = Inr ls
         \<and> length ls = length ms
         \<and> list_all2 (\<lambda>m l. \<exists>i md. m_id m = Some i \<and> m_metadata m = MetaDict md \<and>
                  l = \<lparr> l_id = i, l_arquivo = dict_get md ''arquivo'' (MStr []),
                        l_texto = dict_get md ''texto'' (MStr []) \<rparr>) ms ls))"
proof -
  have a: "fst (buscar_documentos w tr q k) = Inr ds \<longrightarrow>
      (\<forall>d\<in>set ds. truthy (doc_arquivo d) \<and> truthy (doc_texto d)
                    \<and> doc_arquivo d \<noteq> MStr [] \<and> doc_texto d \<noteq> MStr [])"
  proof
    assume "fst (buscar_documentos w tr q k) = Inr ds"
    then have "ds = [] \<or> (\<exists>ms. ds = formatar_resultados ms)" by (rule buscar_resultado)
    then show "\<forall>d\<in>set ds. truthy (doc_arquivo d) \<and> truthy (doc_texto d)
                    \<and> doc_arquivo d \<noteq> MStr [] \<and> doc_texto d \<noteq> MStr []"
      using formatar_resultados_completos truthy_nao_vazio by fastforce
  qed
  have b: "fst (inicializar_pinecone w tr) = Inr ix
        \<and> describe_index_stats w (snd (inicializar_pinecone w tr)) = Inr (Some n) \<and> n \<noteq> 0
        \<and> index_query w (snd (inicializar_pinecone w tr) @ [DescribeIndexStats])
             dummy_vector (min limit 10000) True = Inr (Resp (MatchesList ms))
        \<and> (\<forall>m\<in>set ms. \<exists>i md. m_id m = Some i \<and> m_metadata m = MetaDict md) \<longrightarrow>
      (\<exists>ls. fst (listar_todos_documentos w tr limit) = Inr (ls, n)
         \<and> listar_matches ms = Inr ls
         \<and> length ls = length ms
         \<and> list_all2 (\<lambda>m l. \<exists>i md. m_id m = Some i \<and> m_metadata m = MetaDict md \<and>
                  l = \<lparr> l_id = i, l_arquivo = dict_get md ''arquivo'' (MStr []),
                        l_texto = dict_get md ''texto'' (MStr []) \<rparr>) ms ls)"
  proof
    assume h: "fst (inicializar_pinecone w tr) = Inr ix
        \<and> describe_index_stats w (snd (inicializar_pinecone w tr)) = Inr (Some n) \<and> n \<noteq> 0
        \<and> index_query w (snd (inicializar_pinecone w tr) @ [DescribeIndexStats])
             dummy_vector (min limit 10000) True = Inr (Resp (MatchesList ms))
        \<and> (\<forall>m\<in>set ms. \<exists>i md. m_id m = Some i \<and> m_metadata m = MetaDict md)"
    then obtain ls where l: "listar_matches ms = Inr ls"
      using listar_matches_sucesso [of ms] by blast
    have g: "fst (consulta_generica w (snd (inicializar_pinecone w tr) @ [DescribeIndexStats]) n limit) =
        Inr (ls, n)"
      using h l fst_consulta_generica_lista by blast
    have 1: "fst (listar_todos_documentos w tr limit) = Inr (ls, n)"
      using h g by (simp add: fst_listar)
    have 2: "list_all2 (\<lambda>m l. \<exists>i md. m_id m = Some i \<and> m_metadata m = MetaDict md \<and>
                  l = \<lparr> l_id = i, l_arquivo = dict_get md ''arquivo'' (MStr []),
                        l_texto = dict_get md ''texto'' (MStr []) \<rparr>) ms ls"
      using l by (rule listar_matches_um_por_match)
    then have 3: "length ls = length ms" by (simp add: list_all2_lengthD)
    show "\<exists>ls. fst (listar_todos_documentos w tr limit) = Inr (ls, n)
         \<and> listar_matches ms = Inr ls
         \<and> length ls = length ms
         \<and> list_all2 (\<lambda>m l. \<exists>i md. m_id m = Some i \<and> m_metadata m = MetaDict md \<and>
                  l = \<lparr> l_id = i, l_arquivo = dict_get md ''arquivo'' (MStr []),
                        l_texto = dict_get md ''texto'' (MStr []) \<rparr>) ms ls"
      using 1 2 3 l by blast
  qed
  show ?thesis using a b by blast
qed

theorem registros_completos_witness:
  "fst (buscar_documentos mundo_incompleto [] ''aluguel'' 5) =
     Inr [\<lparr> doc_id = ''v1'', doc_score = 1, doc_arquivo = MStr ''a.pdf'',
            doc_texto = MStr ''clausula'', doc_secao = MStr [],
            doc_valores_monetarios = MStrs [], doc_cpfs = MStrs [], doc_nomes = MStrs [] \<rparr>]
   \<and> truthy (MStr ''a.pdf'') \<and> truthy (MStr ''clausula'')
   \<and> fst (listar_todos_documentos mundo_incompleto [] 100) =
       Inr ([\<lparr> l_id = ''v1'', l_arquivo = MStr ''a.pdf'', l_texto = MStr ''clausula'' \<rparr>,
             \<lparr> l_id = ''v2'', l_arquivo = MStr ''b.pdf'', l_texto = MStr [] \<rparr>], 2)"
proof -
  let ?d = "\<lparr> doc_id = ''v1'', doc_score = 1, doc_arquivo = MStr ''a.pdf'',
            doc_texto = MStr ''clausula'', doc_secao = MStr [],
            doc_valores_monetarios = MStrs [], doc_cpfs = MStrs [], doc_nomes = MStrs [] \<rparr>"
  let ?ls = "[\<lparr> l_id = ''v1'', l_arquivo = MStr ''a.pdf'', l_texto = MStr ''clausula'' \<rparr>,
          \<lparr> l_id = ''v2'', l_arquivo = MStr ''b.pdf'', l_texto = MStr [] \<rparr>]"
  note t = registros_completos [where w = mundo_incompleto and tr = "[]" and q = "''aluguel''"
      and k = 5 and ds = "[?d]" and limit = 100 and ix = "Index ''brito-ai'' ''host''" and n = 2
      and ms = "[match_completo, match_sem_texto]"]
  have a: "truthy (doc_arquivo ?d) \<and> truthy (doc_texto ?d)"
    using t busca_incompleto by simp
  have i: "fst (inicializar_pinecone mundo_incompleto []) = Inr (Index ''brito-ai'' ''host'')"
    "describe_index_stats mundo_incompleto (snd (inicializar_pinecone mundo_incompleto [])) = Inr (Some 2)"
    "index_query mundo_incompleto (snd (inicializar_pinecone mundo_incompleto []) @ [DescribeIndexStats])
       dummy_vector (min 100 10000) True = Inr (Resp (MatchesList [match_completo, match_sem_texto]))"
    by (simp_all add: mundo_incompleto_def inicializar_mundo) (simp_all add: mundo_def)
  have n: "(2::int) \<noteq> 0" by simp
  have m: "\<forall>m\<in>set [match_completo, match_sem_texto].
             \<exists>i md. m_id m = Some i \<and> m_metadata m = MetaDict md"
    by (simp add: match_completo_def match_sem_texto_def)
  from t i n m obtain ls where
    l: "fst (listar_todos_documentos mundo_incompleto [] 100) = Inr (ls, 2)"
       "listar_matches [match_completo, match_sem_texto] = Inr ls"
    by blast
  have b: "fst (listar_todos_documentos mundo_incompleto [] 100) = Inr (?ls, 2)"
    using l listar_matches_incompleto by simp
  show ?thesis using a b busca_incompleto by simp
qed


end
